theory Spec2Isabelle
  imports Complex_Main "HOL-Library.Word" "HOL-Library.Log_Nat"
begin

section \<open>Errors\<close>

text \<open>
  A Go \<open>error\<close> value. An error that the API client hands back carries, besides its
  message, what the library's \<open>errors.IsNotFound\<close> says of it (the library decides
  that from the reason and the HTTP code of the status). The package itself builds
  errors with \<open>fmt.Errorf\<close>, either from a plain message or wrapping another error
  with \<open>%w\<close>.
\<close>

datatype error =
    APIError bool string
  | Errorf string
  | Wrapf string error

text \<open>
  \<open>errors.IsNotFound\<close>: the library's answer for an API error, also through the
  wrapping of \<open>%w\<close>; an error built from a plain message has no status and is not one.
\<close>

fun IsNotFound :: "error \<Rightarrow> bool" where
  "IsNotFound (APIError notFound _) = notFound"
| "IsNotFound (Errorf _) = False"
| "IsNotFound (Wrapf _ err) = IsNotFound err"

section \<open>Kubernetes objects\<close>

text \<open>
  The API objects, with the fields that the health checks read. The string-typed
  enumerations of the API (\<open>ConditionStatus\<close>, \<open>PodPhase\<close>, \<open>ServiceType\<close>, condition
  types) stay strings, with the API's constants as abbreviations.
\<close>

abbreviation ConditionTrue :: string where "ConditionTrue \<equiv> ''True''"
abbreviation ConditionFalse :: string where "ConditionFalse \<equiv> ''False''"
abbreviation NodeReady :: string where "NodeReady \<equiv> ''Ready''"
abbreviation PodScheduled :: string where "PodScheduled \<equiv> ''PodScheduled''"
abbreviation PodRunning :: string where "PodRunning \<equiv> ''Running''"
abbreviation PodPending :: string where "PodPending \<equiv> ''Pending''"
abbreviation ServiceTypeLoadBalancer :: string where "ServiceTypeLoadBalancer \<equiv> ''LoadBalancer''"

text \<open>\<open>NodeCondition\<close> and \<open>PodCondition\<close> have the same three fields here.\<close>

record Condition =
  cond_Type :: string
  cond_Status :: string
  cond_Message :: string

text \<open>
  A container: its environment and its resource requests, the latter as the two
  \<open>int64\<close> the code reads from them, \<open>Requests.Cpu().MilliValue()\<close> and
  \<open>Requests.Memory().Value()\<close> (zero when the request is absent).
\<close>

record Container =
  ctr_Name :: string
  ctr_Env :: "(string \<times> string) list"
  req_cpu_MilliValue :: "64 word"
  req_memory_Value :: "64 word"

text \<open>
  A source of a projected volume; the pointer \<open>ServiceAccountToken\<close> is \<open>None\<close> when nil
  and otherwise holds the token's path.
\<close>

record VolumeProjection =
  ServiceAccountToken :: "string option"
  ConfigMap :: "string option"

text \<open>A volume; the pointer \<open>Projected\<close> is \<open>None\<close> when nil, otherwise its \<open>Sources\<close>.\<close>

record Volume =
  vol_Name :: string
  Projected :: "VolumeProjection list option"

record Pod =
  pod_Name :: string
  pod_Namespace :: string
  spec_NodeName :: string
  spec_ServiceAccountName :: string
  spec_Containers :: "Container list"
  spec_Volumes :: "Volume list"
  status_Phase :: string
  status_Message :: string
  status_Conditions :: "Condition list"

text \<open>
  A node; the capacity as the two \<open>int64\<close> the code reads,
  \<open>Capacity.Cpu().MilliValue()\<close> and \<open>Capacity.Memory().Value()\<close>.
\<close>

record Node =
  node_Name :: string
  KubeletVersion :: string
  node_Conditions :: "Condition list"
  cap_cpu_MilliValue :: "64 word"
  cap_memory_Value :: "64 word"

record Deployment =
  deploy_Name :: string
  deploy_Namespace :: string
  deploy_Annotations :: "string \<rightharpoonup> string"

text \<open>A service or an ingress, with the ingress points of its load-balancer status.\<close>

record Service =
  svc_Name :: string
  svc_Namespace :: string
  svc_Type :: string
  svc_Ingress :: "string list"

record Ingress =
  ing_Name :: string
  ing_Namespace :: string
  ing_Ingress :: "string list"

record ServiceAccount =
  sa_Name :: string
  sa_Namespace :: string
  sa_Annotations :: "string \<rightharpoonup> string"

section \<open>The cluster-state accessor\<close>

record ListOptions =
  LabelSelector :: string
  FieldSelector :: string

text \<open>
  The calls that the package makes on the API client, with their arguments; the
  namespace is the first argument where the call has one. \<open>PodsCreate\<close> has the
  namespace, the \<open>GenerateName\<close> and the command of the one-container pod to create;
  \<open>PodsWatch\<close> and \<open>PodsDelete\<close> have the namespace and the name of the pod.
\<close>

datatype call =
    NodesList
  | DeploymentsList string
  | PodsList string ListOptions
  | PodsGet string string
  | PodsGetLogs string string string
  | PodsCreate string string "string list"
  | PodsWatch string string
  | PodsDelete string string
  | ServicesList string
  | IngressesList string
  | ServiceAccountsList string

text \<open>
  \<open>kubernetes.Interface\<close>, as far as the package calls it. Each call either fails with
  an error or answers, and its answer may depend on the calls made before it, which are
  the first argument: the cluster changes while a run goes on, and a call that has
  succeeded once may fail the next time. Every function below takes the calls made so
  far and returns them with its own calls appended. Opening a log stream may fail, and
  so may reading it to its end, hence the two layers of \<open>Pods_GetLogs\<close>. A watch
  answers with the pods of the events it delivers, in order, and whether the event
  channel is closed after them. The answer to a deletion is never looked at.
\<close>

record Clientset =
  Nodes_List :: "call list \<Rightarrow> error + Node list"
  Deployments_List :: "call list \<Rightarrow> string \<Rightarrow> error + Deployment list"
  Pods_List :: "call list \<Rightarrow> string \<Rightarrow> ListOptions \<Rightarrow> error + Pod list"
  Pods_Get :: "call list \<Rightarrow> string \<Rightarrow> string \<Rightarrow> error + Pod"
  Pods_GetLogs :: "call list \<Rightarrow> string \<Rightarrow> string \<Rightarrow> string \<Rightarrow> error + (error + string)"
  Pods_Create :: "call list \<Rightarrow> string \<Rightarrow> string \<Rightarrow> string list \<Rightarrow> error + Pod"
  Pods_Watch :: "call list \<Rightarrow> string \<Rightarrow> string \<Rightarrow> error + (Pod list \<times> bool)"
  Services_List :: "call list \<Rightarrow> string \<Rightarrow> error + Service list"
  Ingresses_List :: "call list \<Rightarrow> string \<Rightarrow> error + Ingress list"
  ServiceAccounts_List :: "call list \<Rightarrow> string \<Rightarrow> error + ServiceAccount list"

section \<open>The status model\<close>

text \<open>
  \<open>PodStatus\<close> without its \<open>Spec\<close> and \<open>Requirements\<close> fields, which no health check
  writes or reads.
\<close>

record PodStatus =
  ps_Name :: string
  ps_Namespace :: string
  ps_Status :: string
  ps_NodeName :: string
  ps_Phase :: string
  ps_Message :: string

record LoggingStatus =
  FluentBitStatus :: "PodStatus list"
  CloudWatchStatus :: "PodStatus list"
  MetricsServerStatus :: "PodStatus list"

record NetworkingStatus =
  CNIStatus :: "PodStatus list"
  CoreDNSStatus :: "PodStatus list"
  ExternalAccess :: bool
  DNSResolution :: bool

record IngressStatus =
  is_Name :: string
  is_Namespace :: string
  is_Status :: string
  Problems :: "string list"

record LoadBalancerStatus =
  PendingServices :: "string list"
  IngressStatus :: "IngressStatus list"

record PodSchedulingIssue =
  Pod :: string
  Namespace :: string
  Reason :: string

text \<open>
  \<open>Utilization\<close> is a \<open>float64\<close> in the source; no health check computes one, so the
  field only ever holds the zero value here.
\<close>

record ResourceStats =
  Capacity :: "64 word"
  Allocated :: "64 word"
  Utilization :: rat

record ResourceIssue =
  NodeName :: string
  CPU :: ResourceStats
  Memory :: ResourceStats

record SchedulingStatus =
  PendingPods :: "PodSchedulingIssue list"
  ResourceIssues :: "ResourceIssue list"

record AuthStatus =
  IRSAIssues :: "string list"
  RBACIssues :: "string list"
  IAMAuthIssues :: "string list"

record NodeStatus =
  NotReady :: "string list"
  ASGIssues :: "string list"
  BootstrapIssues :: "string list"

record ClusterHealthStatus =
  NodeVersions :: "string \<rightharpoonup> string list"
  DeprecatedAPIs :: "string list"
  LoggingStatus :: LoggingStatus
  NetworkingStatus :: NetworkingStatus
  LoadBalancerStatus :: LoadBalancerStatus
  SchedulingStatus :: SchedulingStatus
  AuthStatus :: AuthStatus
  NodeStatus :: NodeStatus

text \<open>Go's zero values of the sub-statuses: nil slices are empty lists.\<close>

definition zeroLoggingStatus :: LoggingStatus where
  "zeroLoggingStatus =
     \<lparr>FluentBitStatus = [], CloudWatchStatus = [], MetricsServerStatus = []\<rparr>"

definition zeroNetworkingStatus :: NetworkingStatus where
  "zeroNetworkingStatus =
     \<lparr>CNIStatus = [], CoreDNSStatus = [], ExternalAccess = False, DNSResolution = False\<rparr>"

definition zeroLoadBalancerStatus :: LoadBalancerStatus where
  "zeroLoadBalancerStatus = \<lparr>PendingServices = [], IngressStatus = []\<rparr>"

definition zeroSchedulingStatus :: SchedulingStatus where
  "zeroSchedulingStatus = \<lparr>PendingPods = [], ResourceIssues = []\<rparr>"

definition zeroAuthStatus :: AuthStatus where
  "zeroAuthStatus = \<lparr>IRSAIssues = [], RBACIssues = [], IAMAuthIssues = []\<rparr>"

definition zeroNodeStatus :: NodeStatus where
  "zeroNodeStatus = \<lparr>NotReady = [], ASGIssues = [], BootstrapIssues = []\<rparr>"

text \<open>
  The value \<open>CheckClusterHealth\<close> starts from:
  \<open>&ClusterHealthStatus{NodeVersions: make(map[string][]string)}\<close>.
\<close>

definition newClusterHealthStatus :: ClusterHealthStatus where
  "newClusterHealthStatus =
     \<lparr>NodeVersions = Map.empty, DeprecatedAPIs = [],
      LoggingStatus = zeroLoggingStatus, NetworkingStatus = zeroNetworkingStatus,
      LoadBalancerStatus = zeroLoadBalancerStatus, SchedulingStatus = zeroSchedulingStatus,
      AuthStatus = zeroAuthStatus, NodeStatus = zeroNodeStatus\<rparr>"

section \<open>The checks\<close>

text \<open>
  A check takes the client, the status (or the part of it that the source passes by
  pointer) and the calls made so far; it returns the status as it leaves it, Go's
  \<open>error\<close> (\<open>None\<close> for nil) and the calls made so far, its own included. The status
  holds what the check wrote before an error, as the pointer of the source does.
\<close>

subsection \<open>VersionSkew\<close>

text \<open>
  The loop of \<open>checkVersionMismatch\<close>:
  \<open>status.NodeVersions[version] = append(status.NodeVersions[version], node.Name)\<close>;
  reading a missing key of a Go map gives the nil slice.
\<close>

fun groupVersions :: "Node list \<Rightarrow> (string \<rightharpoonup> string list) \<Rightarrow> (string \<rightharpoonup> string list)" where
  "groupVersions [] m = m"
| "groupVersions (node # items) m =
     (let version = KubeletVersion node in
      groupVersions items
        (m(version \<mapsto> (case m version of None \<Rightarrow> [] | Some names \<Rightarrow> names) @ [node_Name node])))"

definition checkVersionMismatch ::
    "Clientset \<Rightarrow> ClusterHealthStatus \<Rightarrow> call list
       \<Rightarrow> ClusterHealthStatus \<times> error option \<times> call list" where
  "checkVersionMismatch k status tr =
     (case Nodes_List k tr of
        Inl err \<Rightarrow> (status, Some err, tr @ [NodesList])
      | Inr nodes \<Rightarrow>
          (status\<lparr>NodeVersions := groupVersions nodes (NodeVersions status)\<rparr>, None,
           tr @ [NodesList]))"

subsection \<open>DeprecatedAPIUsage\<close>

fun deprecatedLoop :: "Deployment list \<Rightarrow> string list \<Rightarrow> string list" where
  "deprecatedLoop [] acc = acc"
| "deprecatedLoop (deploy # items) acc =
     deprecatedLoop items
       (if deploy_Annotations deploy ''deprecated.kubernetes.io'' \<noteq> None
        then acc @ [''Deployment '' @ deploy_Namespace deploy @ ''/'' @ deploy_Name deploy
                      @ '' uses deprecated APIs'']
        else acc)"

definition checkDeprecatedAPIs ::
    "Clientset \<Rightarrow> ClusterHealthStatus \<Rightarrow> call list
       \<Rightarrow> ClusterHealthStatus \<times> error option \<times> call list" where
  "checkDeprecatedAPIs k status tr =
     (case Deployments_List k tr '''' of
        Inl err \<Rightarrow> (status, Some err, tr @ [DeploymentsList ''''])
      | Inr deployments \<Rightarrow>
          (status\<lparr>DeprecatedAPIs := deprecatedLoop deployments (DeprecatedAPIs status)\<rparr>,
           None, tr @ [DeploymentsList '''']))"

subsection \<open>LoggingAgents and Networking\<close>

text \<open>The \<open>PodStatus\<close> literal the pod loops append: four fields set, the rest zero.\<close>

definition podStatusOf :: "Pod \<Rightarrow> PodStatus" where
  "podStatusOf pod =
     \<lparr>ps_Name = pod_Name pod, ps_Namespace = pod_Namespace pod,
      ps_Status = status_Phase pod, ps_NodeName = '''', ps_Phase = '''',
      ps_Message = status_Message pod\<rparr>"

fun podStatusLoop :: "Pod list \<Rightarrow> PodStatus list \<Rightarrow> PodStatus list" where
  "podStatusLoop [] acc = acc"
| "podStatusLoop (pod # items) acc = podStatusLoop items (acc @ [podStatusOf pod])"

text \<open>
  The guard \<open>err != nil && !errors.IsNotFound(err)\<close> of the logging check: a not-found
  error is passed over, and the loop then runs over the empty list that the client
  returns along with an error.
\<close>

fun unlessNotFound :: "error + 'a list \<Rightarrow> error + 'a list" where
  "unlessNotFound (Inl err) = (if IsNotFound err then Inr [] else Inl err)"
| "unlessNotFound (Inr items) = Inr items"

definition byLabel :: "string \<Rightarrow> ListOptions" where
  "byLabel sel = \<lparr>LabelSelector = sel, FieldSelector = ''''\<rparr>"

definition byField :: "string \<Rightarrow> ListOptions" where
  "byField sel = \<lparr>LabelSelector = '''', FieldSelector = sel\<rparr>"

definition checkLoggingStatus ::
    "Clientset \<Rightarrow> ClusterHealthStatus \<Rightarrow> call list
       \<Rightarrow> ClusterHealthStatus \<times> error option \<times> call list" where
  "checkLoggingStatus k status tr =
     (let res = unlessNotFound (Pods_List k tr '''' (byLabel ''app=fluent-bit''));
          tr = tr @ [PodsList '''' (byLabel ''app=fluent-bit'')] in
      case res of
        Inl err \<Rightarrow> (status, Some err, tr)
      | Inr fluentBitPods \<Rightarrow>
     let status = status\<lparr>LoggingStatus := (LoggingStatus status)
           \<lparr>FluentBitStatus :=
              podStatusLoop fluentBitPods (FluentBitStatus (LoggingStatus status))\<rparr>\<rparr>;
         res = unlessNotFound (Pods_List k tr '''' (byLabel ''app=cloudwatch-agent''));
         tr = tr @ [PodsList '''' (byLabel ''app=cloudwatch-agent'')] in
     (case res of
        Inl err \<Rightarrow> (status, Some err, tr)
      | Inr cwPods \<Rightarrow>
     let status = status\<lparr>LoggingStatus := (LoggingStatus status)
           \<lparr>CloudWatchStatus :=
              podStatusLoop cwPods (CloudWatchStatus (LoggingStatus status))\<rparr>\<rparr>;
         res = unlessNotFound (Pods_List k tr '''' (byLabel ''k8s-app=metrics-server''));
         tr = tr @ [PodsList '''' (byLabel ''k8s-app=metrics-server'')] in
     (case res of
        Inl err \<Rightarrow> (status, Some err, tr)
      | Inr metricsPods \<Rightarrow>
     (status\<lparr>LoggingStatus := (LoggingStatus status)
           \<lparr>MetricsServerStatus :=
              podStatusLoop metricsPods (MetricsServerStatus (LoggingStatus status))\<rparr>\<rparr>,
      None, tr))))"

definition checkNetworkingStatus ::
    "Clientset \<Rightarrow> NetworkingStatus \<Rightarrow> call list
       \<Rightarrow> NetworkingStatus \<times> error option \<times> call list" where
  "checkNetworkingStatus k status tr =
     (let res = Pods_List k tr ''kube-system'' (byLabel ''k8s-app=aws-node'');
          tr = tr @ [PodsList ''kube-system'' (byLabel ''k8s-app=aws-node'')] in
      case res of
        Inl err \<Rightarrow> (status, Some err, tr)
      | Inr cniPods \<Rightarrow>
     let status = status\<lparr>CNIStatus := podStatusLoop cniPods (CNIStatus status)\<rparr>;
         res = Pods_List k tr ''kube-system'' (byLabel ''k8s-app=kube-dns'');
         tr = tr @ [PodsList ''kube-system'' (byLabel ''k8s-app=kube-dns'')] in
     (case res of
        Inl err \<Rightarrow> (status, Some err, tr)
      | Inr coreDNSPods \<Rightarrow>
     (status\<lparr>CoreDNSStatus := podStatusLoop coreDNSPods (CoreDNSStatus status)\<rparr>,
      None, tr)))"

subsection \<open>LoadBalancing\<close>

fun pendingServicesLoop :: "Service list \<Rightarrow> string list \<Rightarrow> string list" where
  "pendingServicesLoop [] acc = acc"
| "pendingServicesLoop (svc # items) acc =
     pendingServicesLoop items
       (if svc_Type svc = ServiceTypeLoadBalancer \<and> length (svc_Ingress svc) = 0
        then acc @ [svc_Namespace svc @ ''/'' @ svc_Name svc]
        else acc)"

fun ingressLoop :: "Ingress list \<Rightarrow> IngressStatus list \<Rightarrow> IngressStatus list" where
  "ingressLoop [] acc = acc"
| "ingressLoop (ing # items) acc =
     (let ingressStatus = \<lparr>is_Name = ing_Name ing, is_Namespace = ing_Namespace ing,
                            is_Status = ''Pending'', Problems = []\<rparr>;
          ingressStatus = (if length (ing_Ingress ing) > 0
                           then ingressStatus\<lparr>is_Status := ''Ready''\<rparr> else ingressStatus)
      in ingressLoop items (acc @ [ingressStatus]))"

definition checkLoadBalancerStatus ::
    "Clientset \<Rightarrow> LoadBalancerStatus \<Rightarrow> call list
       \<Rightarrow> LoadBalancerStatus \<times> error option \<times> call list" where
  "checkLoadBalancerStatus k status tr =
     (let res = Services_List k tr '''';
          tr = tr @ [ServicesList ''''] in
      case res of
        Inl err \<Rightarrow> (status, Some err, tr)
      | Inr services \<Rightarrow>
     let status = status\<lparr>PendingServices :=
                    pendingServicesLoop services (PendingServices status)\<rparr>;
         res = Ingresses_List k tr '''';
         tr = tr @ [IngressesList ''''] in
     (case res of
        Inl err \<Rightarrow> (status, Some err, tr)
      | Inr ingresses \<Rightarrow>
     (status\<lparr>IngressStatus := ingressLoop ingresses (IngressStatus status)\<rparr>, None, tr)))"

subsection \<open>Scheduling\<close>

text \<open>
  The inner loop of \<open>checkSchedulingStatus\<close> over the pod's conditions, leaving at the
  first match (\<open>break\<close>); the second argument is \<open>issue.Reason\<close>.
\<close>

fun reasonLoop :: "Condition list \<Rightarrow> string \<Rightarrow> string" where
  "reasonLoop [] reason = reason"
| "reasonLoop (cond # conds) reason =
     (if cond_Type cond = PodScheduled \<and> cond_Status cond = ConditionFalse
      then cond_Message cond
      else reasonLoop conds reason)"

fun pendingPodsLoop :: "Pod list \<Rightarrow> PodSchedulingIssue list \<Rightarrow> PodSchedulingIssue list" where
  "pendingPodsLoop [] acc = acc"
| "pendingPodsLoop (pod # items) acc =
     (let issue = \<lparr>Pod = pod_Name pod, Namespace = pod_Namespace pod, Reason = ''''\<rparr>;
          issue = issue\<lparr>Reason := reasonLoop (status_Conditions pod) (Reason issue)\<rparr>
      in pendingPodsLoop items (acc @ [issue]))"

definition checkSchedulingStatus ::
    "Clientset \<Rightarrow> SchedulingStatus \<Rightarrow> call list
       \<Rightarrow> SchedulingStatus \<times> error option \<times> call list" where
  "checkSchedulingStatus k status tr =
     (case Pods_List k tr '''' (byField ''status.phase=Pending'') of
        Inl err \<Rightarrow> (status, Some err, tr @ [PodsList '''' (byField ''status.phase=Pending'')])
      | Inr pods \<Rightarrow>
          (status\<lparr>PendingPods := pendingPodsLoop pods (PendingPods status)\<rparr>, None,
           tr @ [PodsList '''' (byField ''status.phase=Pending'')]))"

subsection \<open>Authentication\<close>

text \<open>\<open>strings.Contains\<close>.\<close>

fun HasPrefix :: "string \<Rightarrow> string \<Rightarrow> bool" where
  "HasPrefix s [] = True"
| "HasPrefix [] (c # prefix) = False"
| "HasPrefix (d # s) (c # prefix) = (d = c \<and> HasPrefix s prefix)"

fun Contains :: "string \<Rightarrow> string \<Rightarrow> bool" where
  "Contains [] substr = (substr = [])"
| "Contains (c # s) substr = (HasPrefix (c # s) substr \<or> Contains s substr)"

definition GetPodLogs ::
    "Clientset \<Rightarrow> call list \<Rightarrow> string \<Rightarrow> string \<Rightarrow> string
       \<Rightarrow> string \<times> error option \<times> call list" where
  "GetPodLogs k tr namespace podName containerName =
     (case Pods_GetLogs k tr namespace podName containerName of
        Inl err \<Rightarrow> ('''', Some (Wrapf ''failed to get pod logs: '' err),
                   tr @ [PodsGetLogs namespace podName containerName])
      | Inr podLogs \<Rightarrow>
          (case podLogs of
             Inl err \<Rightarrow> ('''', Some (Wrapf ''failed to copy pod logs: '' err),
                        tr @ [PodsGetLogs namespace podName containerName])
           | Inr buf \<Rightarrow> (buf, None, tr @ [PodsGetLogs namespace podName containerName])))"

fun irsaPodsLoop ::
    "Clientset \<Rightarrow> string \<Rightarrow> string \<Rightarrow> Pod list \<Rightarrow> string list \<Rightarrow> call list
       \<Rightarrow> string list \<times> call list" where
  "irsaPodsLoop k account role [] acc tr = (acc, tr)"
| "irsaPodsLoop k account role (pod # items) acc tr =
     (if status_Phase pod = PodRunning
      then (case GetPodLogs k tr (pod_Namespace pod) (pod_Name pod) '''' of
              (logs, Some err, tr) \<Rightarrow> irsaPodsLoop k account role items acc tr
            | (logs, None, tr) \<Rightarrow>
                irsaPodsLoop k account role items
                  (if Contains logs ''AccessDenied'' \<or> Contains logs ''UnauthorizedOperation''
                   then acc @ [''Pod '' @ pod_Namespace pod @ ''/'' @ pod_Name pod
                                 @ '' using SA '' @ account @ '' with role '' @ role
                                 @ '' has AWS access issues'']
                   else acc)
                  tr)
      else irsaPodsLoop k account role items acc tr)"

fun accountsLoop ::
    "Clientset \<Rightarrow> ServiceAccount list \<Rightarrow> string list \<Rightarrow> call list
       \<Rightarrow> string list \<times> call list" where
  "accountsLoop k [] acc tr = (acc, tr)"
| "accountsLoop k (account # items) acc tr =
     (case sa_Annotations account ''eks.amazonaws.com/role-arn'' of
        None \<Rightarrow> accountsLoop k items acc tr
      | Some role \<Rightarrow>
          (let opts = byField (''spec.serviceAccountName='' @ sa_Name account);
               res = Pods_List k tr (sa_Namespace account) opts;
               tr = tr @ [PodsList (sa_Namespace account) opts] in
           case res of
             Inl err \<Rightarrow> accountsLoop k items acc tr
           | Inr pods \<Rightarrow>
               (case irsaPodsLoop k (sa_Name account) role pods acc tr of
                  (acc, tr) \<Rightarrow> accountsLoop k items acc tr)))"

definition checkAuthStatus ::
    "Clientset \<Rightarrow> AuthStatus \<Rightarrow> call list \<Rightarrow> AuthStatus \<times> error option \<times> call list" where
  "checkAuthStatus k status tr =
     (case ServiceAccounts_List k tr '''' of
        Inl err \<Rightarrow> (status, Some err, tr @ [ServiceAccountsList ''''])
      | Inr sa \<Rightarrow>
          (case accountsLoop k sa (IRSAIssues status) (tr @ [ServiceAccountsList '''']) of
             (issues, tr) \<Rightarrow> (status\<lparr>IRSAIssues := issues\<rparr>, None, tr)))"

subsection \<open>NodeReadiness\<close>

text \<open>
  The first loop over a node's conditions: \<open>isReady\<close> is decided by the first condition
  of type \<open>Ready\<close> (\<open>break\<close>), and keeps its initial value when there is none.
\<close>

fun isReadyLoop :: "Condition list \<Rightarrow> bool \<Rightarrow> bool" where
  "isReadyLoop [] isReady = isReady"
| "isReadyLoop (condition # conds) isReady =
     (if cond_Type condition = NodeReady
      then cond_Status condition = ConditionTrue
      else isReadyLoop conds isReady)"

fun bootstrapLoop :: "string \<Rightarrow> Condition list \<Rightarrow> string list \<Rightarrow> string list" where
  "bootstrapLoop name [] acc = acc"
| "bootstrapLoop name (condition # conds) acc =
     bootstrapLoop name conds
       (if cond_Status condition = ConditionFalse
        then acc @ [''Node '' @ name @ '': '' @ cond_Type condition @ '' - ''
                      @ cond_Message condition]
        else acc)"

fun nodesLoop :: "Node list \<Rightarrow> NodeStatus \<Rightarrow> NodeStatus" where
  "nodesLoop [] status = status"
| "nodesLoop (node # items) status =
     (let isReady = isReadyLoop (node_Conditions node) False in
      nodesLoop items
        (if \<not> isReady
         then status\<lparr>NotReady := NotReady status @ [node_Name node],
                     BootstrapIssues :=
                       bootstrapLoop (node_Name node) (node_Conditions node)
                         (BootstrapIssues status)\<rparr>
         else status))"

definition checkNodeStatus ::
    "Clientset \<Rightarrow> NodeStatus \<Rightarrow> call list \<Rightarrow> NodeStatus \<times> error option \<times> call list" where
  "checkNodeStatus k status tr =
     (case Nodes_List k tr of
        Inl err \<Rightarrow> (status, Some err, tr @ [NodesList])
      | Inr nodes \<Rightarrow> (nodesLoop nodes status, None, tr @ [NodesList]))"

section \<open>The aggregation\<close>

text \<open>
  \<open>CheckClusterHealth\<close> returns Go's pair \<open>(*ClusterHealthStatus, error)\<close>, the pointer
  being \<open>None\<close> when nil, and the calls made. The eight checks run in the source's
  order, each on the status and after the calls that the ones before it left; the first
  error ends the run with \<open>return nil, err\<close>.
\<close>

definition CheckClusterHealth ::
    "Clientset \<Rightarrow> call list \<Rightarrow> ClusterHealthStatus option \<times> error option \<times> call list" where
  "CheckClusterHealth k tr =
     (let status = newClusterHealthStatus in
      case checkVersionMismatch k status tr of
        (status, Some err, tr) \<Rightarrow> (None, Some err, tr)
      | (status, None, tr) \<Rightarrow>
      (case checkDeprecatedAPIs k status tr of
        (status, Some err, tr) \<Rightarrow> (None, Some err, tr)
      | (status, None, tr) \<Rightarrow>
      (case checkLoggingStatus k status tr of
        (status, Some err, tr) \<Rightarrow> (None, Some err, tr)
      | (status, None, tr) \<Rightarrow>
      (case checkNetworkingStatus k (NetworkingStatus status) tr of
        (sub, Some err, tr) \<Rightarrow> (None, Some err, tr)
      | (sub, None, tr) \<Rightarrow>
      let status = status\<lparr>NetworkingStatus := sub\<rparr> in
      (case checkLoadBalancerStatus k (LoadBalancerStatus status) tr of
        (sub, Some err, tr) \<Rightarrow> (None, Some err, tr)
      | (sub, None, tr) \<Rightarrow>
      let status = status\<lparr>LoadBalancerStatus := sub\<rparr> in
      (case checkSchedulingStatus k (SchedulingStatus status) tr of
        (sub, Some err, tr) \<Rightarrow> (None, Some err, tr)
      | (sub, None, tr) \<Rightarrow>
      let status = status\<lparr>SchedulingStatus := sub\<rparr> in
      (case checkAuthStatus k (AuthStatus status) tr of
        (sub, Some err, tr) \<Rightarrow> (None, Some err, tr)
      | (sub, None, tr) \<Rightarrow>
      let status = status\<lparr>AuthStatus := sub\<rparr> in
      (case checkNodeStatus k (NodeStatus status) tr of
        (sub, Some err, tr) \<Rightarrow> (None, Some err, tr)
      | (sub, None, tr) \<Rightarrow>
      let status = status\<lparr>NodeStatus := sub\<rparr> in
      (Some status, None, tr)))))))))"

section \<open>Cluster resources\<close>

subsection \<open>Arithmetic in \<open>float64\<close>\<close>

text \<open>
  A \<open>float64\<close> is modelled by the rational number it stands for. A conversion, a
  quotient or a product in \<open>float64\<close> is the exact result rounded to the nearest number
  with a significand of 53 bits, a tie going to the even significand (IEEE 754,
  binary64, round to nearest even). For \<open>x > 0\<close>, \<open>exponent x\<close> is the integer \<open>e\<close> with
  \<open>2 ^ e \<le> x < 2 ^ (e + 1)\<close>, so that the numbers of 53 bits around \<open>x\<close> are the
  multiples of \<open>2 ^ (e - 52)\<close>. Overflow and subnormal numbers are left out: the operands
  below are integers of 64 bits, their quotients and the hundredfold of those, which are
  zero or lie between \<open>2 ^ -63\<close> and \<open>2 ^ 70\<close>.
\<close>

definition roundTiesToEven :: "rat \<Rightarrow> int" where
  "roundTiesToEven x =
     (let f = \<lfloor>x\<rfloor>; d = x - of_int f in
      if d < 1 / 2 then f else if 1 / 2 < d then f + 1 else if even f then f else f + 1)"

definition exponent :: "rat \<Rightarrow> int" where
  "exponent x = (if 1 \<le> x then bitlen \<lfloor>x\<rfloor> - 1 else - bitlen (\<lceil>1 / x\<rceil> - 1))"

definition roundFloat64 :: "rat \<Rightarrow> rat" where
  "roundFloat64 x =
     (if x = 0 then 0
      else let ulp = 2 powi (exponent \<bar>x\<bar> - 52)
           in of_int (roundTiesToEven (x / ulp)) * ulp)"

text \<open>The conversion \<open>float64(x)\<close> of an \<open>int64\<close>, and the operators \<open>/\<close> and \<open>*\<close>.\<close>

definition float64 :: "64 word \<Rightarrow> rat" where
  "float64 x = roundFloat64 (of_int (sint x))"

definition fdiv :: "rat \<Rightarrow> rat \<Rightarrow> rat" where
  "fdiv x y = roundFloat64 (x / y)"

definition fmul :: "rat \<Rightarrow> rat \<Rightarrow> rat" where
  "fmul x y = roundFloat64 (x * y)"

subsection \<open>\<open>GetClusterResources\<close>\<close>






section \<open>Web identity token\<close>

text \<open>
  The two nested loops of \<open>ValidatePodWebIdentityToken\<close>; the \<open>break\<close> leaves the inner
  loop only, and the flag \<open>hasTokenVolume\<close> is never reset.
\<close>

fun sourcesLoop :: "VolumeProjection list \<Rightarrow> bool \<Rightarrow> bool" where
  "sourcesLoop [] hasTokenVolume = hasTokenVolume"
| "sourcesLoop (source # sources) hasTokenVolume =
     (if ServiceAccountToken source \<noteq> None then True
      else sourcesLoop sources hasTokenVolume)"

fun volumesLoop :: "Volume list \<Rightarrow> bool \<Rightarrow> bool" where
  "volumesLoop [] hasTokenVolume = hasTokenVolume"
| "volumesLoop (volume # volumes) hasTokenVolume =
     volumesLoop volumes
       (case Projected volume of
          None \<Rightarrow> hasTokenVolume
        | Some sources \<Rightarrow> sourcesLoop sources hasTokenVolume)"

definition ValidatePodWebIdentityToken ::
    "Clientset \<Rightarrow> call list \<Rightarrow> string \<Rightarrow> string \<Rightarrow> error option \<times> call list" where
  "ValidatePodWebIdentityToken k tr namespace podName =
     (case Pods_Get k tr namespace podName of
        Inl err \<Rightarrow> (Some (Wrapf ''failed to get pod: '' err), tr @ [PodsGet namespace podName])
      | Inr pod \<Rightarrow>
          (let hasTokenVolume = volumesLoop (spec_Volumes pod) False in
           if \<not> hasTokenVolume
           then (Some (Errorf ''pod does not have service account token volume mounted''),
                 tr @ [PodsGet namespace podName])
           else (None, tr @ [PodsGet namespace podName])))"

section \<open>The DNS probe\<close>




text \<open>The calls that only a probe makes.\<close>

fun isProbeCall :: "call \<Rightarrow> bool" where
  "isProbeCall (PodsCreate namespace generateName command) = True"
| "isProbeCall (PodsWatch namespace name) = True"
| "isProbeCall (PodsDelete namespace name) = True"
| "isProbeCall c = False"

section \<open>The health summary\<close>

text \<open>
  What \<open>printHealthSummary\<close> writes, line by line: a logger call with its format string
  and integer arguments, or a \<open>fmt.Println\<close>.
\<close>

datatype outputLine =
    Warning string "int list"
  | Success string
  | Println string

text \<open>
  The two counters of \<open>printHealthSummary\<close> and the lines it writes. \<open>len\<close> of the map
  is the number of its keys, which are finitely many in Go. The counters are Go \<open>int\<close>;
  sums of six slice lengths do not leave its range.
\<close>

record Summary =
  criticalIssues :: int
  totalIssues :: int
  printed :: "outputLine list"

definition len_map :: "('k \<rightharpoonup> 'v) \<Rightarrow> int" where
  "len_map m = int (card (dom m))"

definition len :: "'a list \<Rightarrow> int" where
  "len xs = int (length xs)"

definition printHealthSummary :: "ClusterHealthStatus \<Rightarrow> Summary" where
  "printHealthSummary status =
     (let totalIssues = 0;
          criticalIssues = 0;
          criticalIssues = (if len_map (NodeVersions status) > 1
                            then criticalIssues + 1 else criticalIssues);
          totalIssues = totalIssues + len (DeprecatedAPIs status);
          totalIssues = totalIssues + len (IRSAIssues (AuthStatus status));
          totalIssues = totalIssues + len (RBACIssues (AuthStatus status));
          totalIssues = totalIssues + len (NotReady (NodeStatus status));
          totalIssues = totalIssues + len (PendingPods (SchedulingStatus status));
          totalIssues = totalIssues + len (PendingServices (LoadBalancerStatus status));
          out1 = (if criticalIssues > 0
                  then [Warning ''Found %d critical issues that need immediate attention''
                          [criticalIssues]]
                  else []);
          out2 =
            (if totalIssues > 0
             then [Warning ''Total issues found: %d'' [totalIssues],
                   Println (CHR 0x0A # ''Recommended actions:'')]
                  @ (if len_map (NodeVersions status) > 1
                     then [Println ''1. Upgrade nodes to match control plane version'']
                     else [])
                  @ (if len (DeprecatedAPIs status) > 0
                     then [Println ''2. Update applications using deprecated APIs'']
                     else [])
                  @ (if len (IRSAIssues (AuthStatus status)) > 0
                     then [Println ''3. Fix IRSA configuration issues'']
                     else [])
                  @ (if len (RBACIssues (AuthStatus status)) > 0
                     then [Println ''4. Review and fix RBAC issues'']
                     else [])
                  @ (if len (NotReady (NodeStatus status)) > 0
                     then [Println ''5. Investigate nodes in NotReady state'']
                     else [])
                  @ (if len (PendingPods (SchedulingStatus status)) > 0
                     then [Println ''6. Address pod scheduling issues'']
                     else [])
                  @ (if len (PendingServices (LoadBalancerStatus status)) > 0
                     then [Println ''7. Check LoadBalancer provisioning issues'']
                     else [])
             else [Success ''No issues found - cluster is healthy!''])
      in \<lparr>criticalIssues = criticalIssues, totalIssues = totalIssues,
          printed = out1 @ out2\<rparr>)"

section \<open>Reading the result of a check\<close>

text \<open>The error and the calls in the triple that a check or a run returns.\<close>

abbreviation errorOf :: "'a \<times> error option \<times> call list \<Rightarrow> error option" where
  "errorOf r \<equiv> fst (snd r)"

abbreviation callsOf :: "'a \<times> error option \<times> call list \<Rightarrow> call list" where
  "callsOf r \<equiv> snd (snd r)"

section \<open>Example clusters\<close>

text \<open>
  A ready node of 4 CPUs and 8 GiB, and a cluster that has no objects: every list is
  empty, whatever was called before, and no pod can be fetched, created or watched.
\<close>

definition readyCondition :: Condition where
  "readyCondition = \<lparr>cond_Type = NodeReady, cond_Status = ConditionTrue,
                      cond_Message = ''kubelet is posting ready status''\<rparr>"

definition readyNode :: "string \<Rightarrow> string \<Rightarrow> Node" where
  "readyNode name version =
     \<lparr>node_Name = name, KubeletVersion = version, node_Conditions = [readyCondition],
      cap_cpu_MilliValue = 4000, cap_memory_Value = 8589934592\<rparr>"

definition emptyCluster :: Clientset where
  "emptyCluster =
     \<lparr>Nodes_List = (\<lambda>h. Inr []),
      Deployments_List = (\<lambda>h namespace. Inr []),
      Pods_List = (\<lambda>h namespace opts. Inr []),
      Pods_Get = (\<lambda>h namespace name. Inl (APIError True name)),
      Pods_GetLogs = (\<lambda>h namespace name container. Inl (APIError True name)),
      Pods_Create = (\<lambda>h namespace generateName command. Inl (APIError False generateName)),
      Pods_Watch = (\<lambda>h namespace name. Inl (APIError True name)),
      Services_List = (\<lambda>h namespace. Inr []),
      Ingresses_List = (\<lambda>h namespace. Inr []),
      ServiceAccounts_List = (\<lambda>h namespace. Inr [])\<rparr>"

text \<open>
  Three ready nodes, one on kubelet \<open>1.28\<close> and two on \<open>1.29\<close>, in an otherwise empty
  cluster, and the snapshot of that cluster.
\<close>

definition skewNodes :: "Node list" where
  "skewNodes = [readyNode ''n1'' ''1.28'', readyNode ''n2'' ''1.29'', readyNode ''n3'' ''1.29'']"

definition skewCluster :: Clientset where
  "skewCluster = emptyCluster\<lparr>Nodes_List := (\<lambda>h. Inr skewNodes)\<rparr>"

definition skewSnapshot :: ClusterHealthStatus where
  "skewSnapshot =
     newClusterHealthStatus\<lparr>NodeVersions := [''1.28'' \<mapsto> [''n1''], ''1.29'' \<mapsto> [''n2'', ''n3'']]\<rparr>"

text \<open>
  The same nodes in a cluster that forbids listing the pods of \<open>kube-system\<close>; a
  cluster whose nodes cannot be listed and whose service accounts are forbidden; and a
  cluster that lists its nodes once and is unavailable when they are listed again.
\<close>

definition accessDenied :: error where
  "accessDenied = APIError False ''pods is forbidden''"

definition netDeniedCluster :: Clientset where
  "netDeniedCluster =
     emptyCluster\<lparr>Nodes_List := (\<lambda>h. Inr skewNodes),
                  Pods_List := (\<lambda>h namespace opts.
                     if namespace = ''kube-system'' then Inl accessDenied else Inr [])\<rparr>"

definition unavailable :: error where
  "unavailable = APIError False ''the server is currently unable to handle the request''"

definition unreachableCluster :: Clientset where
  "unreachableCluster =
     emptyCluster\<lparr>Nodes_List := (\<lambda>h. Inl unavailable),
                  ServiceAccounts_List := (\<lambda>h namespace. Inl accessDenied)\<rparr>"

definition flakyCluster :: Clientset where
  "flakyCluster =
     emptyCluster\<lparr>Nodes_List := (\<lambda>h. if NodesList \<in> set h then Inl unavailable
                                       else Inr skewNodes)\<rparr>"

text \<open>
  Two pending pods: one that the scheduler could not place, and one that is scheduled
  and still pulling its image.
\<close>

definition unschedulablePod :: Pod where
  "unschedulablePod =
     \<lparr>pod_Name = ''db-0'', pod_Namespace = ''default'', spec_NodeName = '''',
      spec_ServiceAccountName = ''default'', spec_Containers = [], spec_Volumes = [],
      status_Phase = PodPending, status_Message = '''',
      status_Conditions =
        [\<lparr>cond_Type = PodScheduled, cond_Status = ConditionFalse,
          cond_Message = ''0/3 nodes are available: 3 Insufficient cpu.''\<rparr>]\<rparr>"

definition pullingPod :: Pod where
  "pullingPod =
     \<lparr>pod_Name = ''web-0'', pod_Namespace = ''default'', spec_NodeName = ''n1'',
      spec_ServiceAccountName = ''default'', spec_Containers = [], spec_Volumes = [],
      status_Phase = PodPending, status_Message = '''',
      status_Conditions =
        [\<lparr>cond_Type = PodScheduled, cond_Status = ConditionTrue, cond_Message = ''''\<rparr>]\<rparr>"

definition pendingCluster :: Clientset where
  "pendingCluster =
     emptyCluster\<lparr>Pods_List := (\<lambda>h namespace opts.
        if FieldSelector opts = ''status.phase=Pending''
        then Inr [unschedulablePod, pullingPod] else Inr [])\<rparr>"

text \<open>A node whose \<open>Ready\<close> condition is \<open>False\<close>, and a cluster with it and a ready node.\<close>

definition downNode :: Node where
  "downNode =
     \<lparr>node_Name = ''n4'', KubeletVersion = ''1.29'',
      node_Conditions =
        [\<lparr>cond_Type = ''MemoryPressure'', cond_Status = ConditionFalse,
          cond_Message = ''kubelet has sufficient memory available''\<rparr>,
         \<lparr>cond_Type = NodeReady, cond_Status = ConditionFalse,
          cond_Message = ''container runtime network not ready''\<rparr>],
      cap_cpu_MilliValue = 4000, cap_memory_Value = 8589934592\<rparr>"

definition downCluster :: Clientset where
  "downCluster = emptyCluster\<lparr>Nodes_List := (\<lambda>h. Inr [readyNode ''n1'' ''1.29'', downNode])\<rparr>"

text \<open>
  The two pods of \<open>TestValidatePodWebIdentityToken\<close>: both carry \<open>AWS_ROLE_ARN\<close> in the
  environment of their container; the first has a projected volume with a
  service-account-token source, the second has no volume.
\<close>

definition irsaContainer :: Container where
  "irsaContainer =
     \<lparr>ctr_Name = ''app'',
      ctr_Env = [(''AWS_ROLE_ARN'', ''arn:aws:iam::123456789012:role/test-role''),
                 (''AWS_WEB_IDENTITY_TOKEN_FILE'',
                  ''/var/run/secrets/eks.amazonaws.com/serviceaccount/token'')],
      req_cpu_MilliValue = 0, req_memory_Value = 0\<rparr>"

definition validIrsaPod :: Pod where
  "validIrsaPod =
     \<lparr>pod_Name = ''valid'', pod_Namespace = ''default'', spec_NodeName = ''n1'',
      spec_ServiceAccountName = ''app'', spec_Containers = [irsaContainer],
      spec_Volumes =
        [\<lparr>vol_Name = ''aws-token'',
          Projected = Some [\<lparr>ServiceAccountToken = Some ''token'', ConfigMap = None\<rparr>]\<rparr>],
      status_Phase = PodRunning, status_Message = '''', status_Conditions = []\<rparr>"

definition missingIrsaPod :: Pod where
  "missingIrsaPod =
     \<lparr>pod_Name = ''missing'', pod_Namespace = ''default'', spec_NodeName = ''n1'',
      spec_ServiceAccountName = ''app'', spec_Containers = [irsaContainer],
      spec_Volumes = [],
      status_Phase = PodRunning, status_Message = '''', status_Conditions = []\<rparr>"

definition irsaCluster :: Clientset where
  "irsaCluster =
     emptyCluster\<lparr>Pods_Get := (\<lambda>h namespace name.
        if namespace = ''default'' \<and> name = ''valid'' then Inr validIrsaPod
        else if namespace = ''default'' \<and> name = ''missing'' then Inr missingIrsaPod
        else Inl (APIError True name))\<rparr>"






section \<open>Calls added without a probe\<close>

text \<open>
  \<open>tr'\<close> continues \<open>tr\<close> by calls none of which creates, watches or deletes a pod.
\<close>

definition noProbeSince :: "call list \<Rightarrow> call list \<Rightarrow> bool" where
  "noProbeSince tr tr' = (\<exists>cs. tr' = tr @ cs \<and> (\<forall>c\<in>set cs. \<not> isProbeCall c))"



section \<open>The run as a whole\<close>

subsection \<open>The run stops at the first error\<close>

lemma check_step:
  "(case r of (st, Some err, t) \<Rightarrow> (None, Some err, t) | (st, None, t) \<Rightarrow> F st t)
     = (if errorOf r \<noteq> None then (None, errorOf r, callsOf r) else F (fst r) (callsOf r))"
  by (cases r; cases "errorOf r") auto

lemma CheckClusterHealth_unfold:
  "CheckClusterHealth k tr =
     (let r1 = checkVersionMismatch k newClusterHealthStatus tr in
      if errorOf r1 \<noteq> None then (None, errorOf r1, callsOf r1) else
      let r2 = checkDeprecatedAPIs k (fst r1) (callsOf r1) in
      if errorOf r2 \<noteq> None then (None, errorOf r2, callsOf r2) else
      let r3 = checkLoggingStatus k (fst r2) (callsOf r2) in
      if errorOf r3 \<noteq> None then (None, errorOf r3, callsOf r3) else
      let r4 = checkNetworkingStatus k (NetworkingStatus (fst r3)) (callsOf r3) in
      if errorOf r4 \<noteq> None then (None, errorOf r4, callsOf r4) else
      let r5 = checkLoadBalancerStatus k (LoadBalancerStatus (fst r3)) (callsOf r4) in
      if errorOf r5 \<noteq> None then (None, errorOf r5, callsOf r5) else
      let r6 = checkSchedulingStatus k (SchedulingStatus (fst r3)) (callsOf r5) in
      if errorOf r6 \<noteq> None then (None, errorOf r6, callsOf r6) else
      let r7 = checkAuthStatus k (AuthStatus (fst r3)) (callsOf r6) in
      if errorOf r7 \<noteq> None then (None, errorOf r7, callsOf r7) else
      let r8 = checkNodeStatus k (NodeStatus (fst r3)) (callsOf r7) in
      if errorOf r8 \<noteq> None then (None, errorOf r8, callsOf r8) else
      (Some ((fst r3)\<lparr>NetworkingStatus := fst r4, LoadBalancerStatus := fst r5,
               SchedulingStatus := fst r6, AuthStatus := fst r7, NodeStatus := fst r8\<rparr>),
       None, callsOf r8))"
  by (simp add: CheckClusterHealth_def Let_def check_step cong: if_cong split del: if_split)

subsection \<open>Each check writes its own part of the status\<close>

lemma frame_checkVersionMismatch:
  "fst (checkVersionMismatch k s tr)
     = s\<lparr>NodeVersions := NodeVersions (fst (checkVersionMismatch k s tr))\<rparr>"
  by (simp add: checkVersionMismatch_def split: sum.splits)

lemma frame_checkDeprecatedAPIs:
  "fst (checkDeprecatedAPIs k s tr)
     = s\<lparr>DeprecatedAPIs := DeprecatedAPIs (fst (checkDeprecatedAPIs k s tr))\<rparr>"
  by (simp add: checkDeprecatedAPIs_def split: sum.splits)

lemma frame_checkLoggingStatus:
  "fst (checkLoggingStatus k s tr)
     = s\<lparr>LoggingStatus := LoggingStatus (fst (checkLoggingStatus k s tr))\<rparr>"
  by (simp add: checkLoggingStatus_def Let_def split: sum.splits)

lemma status_after_three_checks:
  fixes k tr
  defines "r1 \<equiv> checkVersionMismatch k newClusterHealthStatus tr"
  defines "r2 \<equiv> checkDeprecatedAPIs k (fst r1) (callsOf r1)"
  defines "r3 \<equiv> checkLoggingStatus k (fst r2) (callsOf r2)"
  shows "fst r3 =
           \<lparr>NodeVersions = NodeVersions (fst r1), DeprecatedAPIs = DeprecatedAPIs (fst r2),
            LoggingStatus = LoggingStatus (fst r3), NetworkingStatus = zeroNetworkingStatus,
            LoadBalancerStatus = zeroLoadBalancerStatus,
            SchedulingStatus = zeroSchedulingStatus, AuthStatus = zeroAuthStatus,
            NodeStatus = zeroNodeStatus\<rparr>"
proof -
  have s1: "fst r1 = newClusterHealthStatus\<lparr>NodeVersions := NodeVersions (fst r1)\<rparr>"
    unfolding r1_def by (rule frame_checkVersionMismatch)
  have s2: "fst r2 = (fst r1)\<lparr>DeprecatedAPIs := DeprecatedAPIs (fst r2)\<rparr>"
    unfolding r2_def by (rule frame_checkDeprecatedAPIs)
  have s3: "fst r3 = (fst r2)\<lparr>LoggingStatus := LoggingStatus (fst r3)\<rparr>"
    unfolding r3_def by (rule frame_checkLoggingStatus)
  show ?thesis
    by (subst s3, subst s2, subst s1) (simp add: newClusterHealthStatus_def)
qed

lemmas check_defs =
  checkVersionMismatch_def checkDeprecatedAPIs_def checkLoggingStatus_def
  checkNetworkingStatus_def checkLoadBalancerStatus_def checkSchedulingStatus_def
  checkAuthStatus_def checkNodeStatus_def byLabel_def byField_def

lemmas zero_defs =
  newClusterHealthStatus_def zeroLoggingStatus_def zeroNetworkingStatus_def
  zeroLoadBalancerStatus_def zeroSchedulingStatus_def zeroAuthStatus_def zeroNodeStatus_def

section \<open>Failing checks\<close>

text \<open>
  Claim C10. Whichever of the eight sub-checks is the first to return an error, on the
  status and after the calls that the run hands to it, \<open>CheckClusterHealth\<close> returns the
  nil snapshot together with that error, and its calls end with those of that sub-check.
\<close>

theorem CheckClusterHealth_error_returns_nil:
  fixes k :: Clientset and tr :: "call list" and e :: error
  defines "r1 \<equiv> checkVersionMismatch k newClusterHealthStatus tr"
  defines "r2 \<equiv> checkDeprecatedAPIs k (fst r1) (callsOf r1)"
  defines "r3 \<equiv> checkLoggingStatus k (fst r2) (callsOf r2)"
  defines "r4 \<equiv> checkNetworkingStatus k (NetworkingStatus (fst r3)) (callsOf r3)"
  defines "r5 \<equiv> checkLoadBalancerStatus k (LoadBalancerStatus (fst r3)) (callsOf r4)"
  defines "r6 \<equiv> checkSchedulingStatus k (SchedulingStatus (fst r3)) (callsOf r5)"
  defines "r7 \<equiv> checkAuthStatus k (AuthStatus (fst r3)) (callsOf r6)"
  defines "r8 \<equiv> checkNodeStatus k (NodeStatus (fst r3)) (callsOf r7)"
  shows "(errorOf r1 = Some e \<longrightarrow> CheckClusterHealth k tr = (None, Some e, callsOf r1))
       \<and> (errorOf r1 = None \<and> errorOf r2 = Some e
            \<longrightarrow> CheckClusterHealth k tr = (None, Some e, callsOf r2))
       \<and> (errorOf r1 = None \<and> errorOf r2 = None \<and> errorOf r3 = Some e
            \<longrightarrow> CheckClusterHealth k tr = (None, Some e, callsOf r3))
       \<and> (errorOf r1 = None \<and> errorOf r2 = None \<and> errorOf r3 = None \<and> errorOf r4 = Some e
            \<longrightarrow> CheckClusterHealth k tr = (None, Some e, callsOf r4))
       \<and> (errorOf r1 = None \<and> errorOf r2 = None \<and> errorOf r3 = None \<and> errorOf r4 = None
            \<and> errorOf r5 = Some e
            \<longrightarrow> CheckClusterHealth k tr = (None, Some e, callsOf r5))
       \<and> (errorOf r1 = None \<and> errorOf r2 = None \<and> errorOf r3 = None \<and> errorOf r4 = None
            \<and> errorOf r5 = None \<and> errorOf r6 = Some e
            \<longrightarrow> CheckClusterHealth k tr = (None, Some e, callsOf r6))
       \<and> (errorOf r1 = None \<and> errorOf r2 = None \<and> errorOf r3 = None \<and> errorOf r4 = None
            \<and> errorOf r5 = None \<and> errorOf r6 = None \<and> errorOf r7 = Some e
            \<longrightarrow> CheckClusterHealth k tr = (None, Some e, callsOf r7))
       \<and> (errorOf r1 = None \<and> errorOf r2 = None \<and> errorOf r3 = None \<and> errorOf r4 = None
            \<and> errorOf r5 = None \<and> errorOf r6 = None \<and> errorOf r7 = None
            \<and> errorOf r8 = Some e
            \<longrightarrow> CheckClusterHealth k tr = (None, Some e, callsOf r8))"
  unfolding CheckClusterHealth_unfold[of k tr] Let_def
    r1_def[symmetric] r2_def[symmetric] r3_def[symmetric] r4_def[symmetric]
    r5_def[symmetric] r6_def[symmetric] r7_def[symmetric] r8_def[symmetric]
  by simp

theorem CheckClusterHealth_error_returns_nil_witness:
  "errorOf (checkVersionMismatch flakyCluster newClusterHealthStatus []) = None
   \<and> CheckClusterHealth flakyCluster [] =
       (None, Some unavailable,
        [NodesList, DeploymentsList '''',
         PodsList '''' (byLabel ''app=fluent-bit''),
         PodsList '''' (byLabel ''app=cloudwatch-agent''),
         PodsList '''' (byLabel ''k8s-app=metrics-server''),
         PodsList ''kube-system'' (byLabel ''k8s-app=aws-node''),
         PodsList ''kube-system'' (byLabel ''k8s-app=kube-dns''),
         ServicesList '''', IngressesList '''',
         PodsList '''' (byField ''status.phase=Pending''),
         ServiceAccountsList '''', NodesList])
   \<and> CheckClusterHealth unreachableCluster [] = (None, Some unavailable, [NodesList])"
proof -
  have a: "errorOf (checkVersionMismatch flakyCluster newClusterHealthStatus []) = None"
    by (simp add: checkVersionMismatch_def flakyCluster_def emptyCluster_def)
  have "errorOf (checkVersionMismatch unreachableCluster newClusterHealthStatus [])
          = Some unavailable"
    "callsOf (checkVersionMismatch unreachableCluster newClusterHealthStatus []) = [NodesList]"
    by (simp_all add: checkVersionMismatch_def unreachableCluster_def emptyCluster_def)
  with CheckClusterHealth_error_returns_nil[of unreachableCluster "[]" unavailable]
  have b: "CheckClusterHealth unreachableCluster [] = (None, Some unavailable, [NodesList])"
    by simp
  have c: "CheckClusterHealth flakyCluster [] =
       (None, Some unavailable,
        [NodesList, DeploymentsList '''',
         PodsList '''' (byLabel ''app=fluent-bit''),
         PodsList '''' (byLabel ''app=cloudwatch-agent''),
         PodsList '''' (byLabel ''k8s-app=metrics-server''),
         PodsList ''kube-system'' (byLabel ''k8s-app=aws-node''),
         PodsList ''kube-system'' (byLabel ''k8s-app=kube-dns''),
         ServicesList '''', IngressesList '''',
         PodsList '''' (byField ''status.phase=Pending''),
         ServiceAccountsList '''', NodesList])"
    using CheckClusterHealth_error_returns_nil[of flakyCluster "[]" unavailable]
    by (simp add: check_defs zero_defs flakyCluster_def emptyCluster_def
          skewNodes_def readyNode_def)
  show ?thesis
    using a b c by simp
qed

text \<open>
  Claim C1, as stated: with the pods of \<open>kube-system\<close> forbidden and every other
  accessor answering, the run stops at the networking check: it returns no snapshot but
  the error of that check, the four checks after it are not run, and each of them, run
  at that point, would have returned no error.
\<close>

theorem CheckClusterHealth_failure_aborts_counterexample:
  "CheckClusterHealth netDeniedCluster [] =
     (None, Some accessDenied,
      [NodesList, DeploymentsList '''',
       PodsList '''' (byLabel ''app=fluent-bit''),
       PodsList '''' (byLabel ''app=cloudwatch-agent''),
       PodsList '''' (byLabel ''k8s-app=metrics-server''),
       PodsList ''kube-system'' (byLabel ''k8s-app=aws-node'')])
   \<and> errorOf (checkLoadBalancerStatus netDeniedCluster zeroLoadBalancerStatus
                (callsOf (CheckClusterHealth netDeniedCluster []))) = None
   \<and> errorOf (checkSchedulingStatus netDeniedCluster zeroSchedulingStatus
                (callsOf (CheckClusterHealth netDeniedCluster []))) = None
   \<and> errorOf (checkAuthStatus netDeniedCluster zeroAuthStatus
                (callsOf (CheckClusterHealth netDeniedCluster []))) = None
   \<and> errorOf (checkNodeStatus netDeniedCluster zeroNodeStatus
                (callsOf (CheckClusterHealth netDeniedCluster []))) = None"
proof -
  have r: "CheckClusterHealth netDeniedCluster [] =
     (None, Some accessDenied,
      [NodesList, DeploymentsList '''',
       PodsList '''' (byLabel ''app=fluent-bit''),
       PodsList '''' (byLabel ''app=cloudwatch-agent''),
       PodsList '''' (byLabel ''k8s-app=metrics-server''),
       PodsList ''kube-system'' (byLabel ''k8s-app=aws-node'')])"
    by (simp add: CheckClusterHealth_def check_defs zero_defs netDeniedCluster_def
        emptyCluster_def skewNodes_def readyNode_def)
  show ?thesis
    unfolding r
    by (simp add: checkLoadBalancerStatus_def checkSchedulingStatus_def checkAuthStatus_def
          checkNodeStatus_def byField_def netDeniedCluster_def emptyCluster_def)
qed

text \<open>
  Claim C1, amended. The eight checks run in order, each on the status and after the
  calls that the checks before it left, the last five each on its own empty part of the
  status. The first check that returns an error ends the run: the run returns no
  snapshot, that error, and the calls made up to the end of that check, so that no later
  check is run. When no check returns an error, the run returns the snapshot in which
  every category is what its check left, with no error.
\<close>

theorem CheckClusterHealth_snapshot_or_first_error:
  fixes k :: Clientset and tr :: "call list"
  defines "r1 \<equiv> checkVersionMismatch k newClusterHealthStatus tr"
  defines "r2 \<equiv> checkDeprecatedAPIs k (fst r1) (callsOf r1)"
  defines "r3 \<equiv> checkLoggingStatus k (fst r2) (callsOf r2)"
  defines "r4 \<equiv> checkNetworkingStatus k zeroNetworkingStatus (callsOf r3)"
  defines "r5 \<equiv> checkLoadBalancerStatus k zeroLoadBalancerStatus (callsOf r4)"
  defines "r6 \<equiv> checkSchedulingStatus k zeroSchedulingStatus (callsOf r5)"
  defines "r7 \<equiv> checkAuthStatus k zeroAuthStatus (callsOf r6)"
  defines "r8 \<equiv> checkNodeStatus k zeroNodeStatus (callsOf r7)"
  shows "CheckClusterHealth k tr =
     (if errorOf r1 \<noteq> None then (None, errorOf r1, callsOf r1) else
      if errorOf r2 \<noteq> None then (None, errorOf r2, callsOf r2) else
      if errorOf r3 \<noteq> None then (None, errorOf r3, callsOf r3) else
      if errorOf r4 \<noteq> None then (None, errorOf r4, callsOf r4) else
      if errorOf r5 \<noteq> None then (None, errorOf r5, callsOf r5) else
      if errorOf r6 \<noteq> None then (None, errorOf r6, callsOf r6) else
      if errorOf r7 \<noteq> None then (None, errorOf r7, callsOf r7) else
      if errorOf r8 \<noteq> None then (None, errorOf r8, callsOf r8) else
      (Some \<lparr>NodeVersions = NodeVersions (fst r1), DeprecatedAPIs = DeprecatedAPIs (fst r2),
             LoggingStatus = LoggingStatus (fst r3), NetworkingStatus = fst r4,
             LoadBalancerStatus = fst r5, SchedulingStatus = fst r6,
             AuthStatus = fst r7, NodeStatus = fst r8\<rparr>,
       None, callsOf r8))"
proof -
  have s3: "fst r3 =
           \<lparr>NodeVersions = NodeVersions (fst r1), DeprecatedAPIs = DeprecatedAPIs (fst r2),
            LoggingStatus = LoggingStatus (fst r3), NetworkingStatus = zeroNetworkingStatus,
            LoadBalancerStatus = zeroLoadBalancerStatus,
            SchedulingStatus = zeroSchedulingStatus, AuthStatus = zeroAuthStatus,
            NodeStatus = zeroNodeStatus\<rparr>"
    unfolding r1_def r2_def r3_def by (rule status_after_three_checks)
  have parts: "NetworkingStatus (fst r3) = zeroNetworkingStatus"
    "LoadBalancerStatus (fst r3) = zeroLoadBalancerStatus"
    "SchedulingStatus (fst r3) = zeroSchedulingStatus"
    "AuthStatus (fst r3) = zeroAuthStatus" "NodeStatus (fst r3) = zeroNodeStatus"
    by (subst s3, simp)+
  have upd: "(fst r3)\<lparr>NetworkingStatus := a, LoadBalancerStatus := b,
               SchedulingStatus := c, AuthStatus := d, NodeStatus := e\<rparr>
             = \<lparr>NodeVersions = NodeVersions (fst r1), DeprecatedAPIs = DeprecatedAPIs (fst r2),
                LoggingStatus = LoggingStatus (fst r3), NetworkingStatus = a,
                LoadBalancerStatus = b, SchedulingStatus = c, AuthStatus = d,
                NodeStatus = e\<rparr>" for a b c d e
    by (subst s3, simp)
  show ?thesis
    unfolding CheckClusterHealth_unfold[of k tr] Let_def
      r1_def[symmetric] r2_def[symmetric] r3_def[symmetric] parts
      r4_def[symmetric] r5_def[symmetric] r6_def[symmetric] r7_def[symmetric]
      r8_def[symmetric] upd
    by (rule refl)
qed

theorem CheckClusterHealth_snapshot_or_first_error_witness:
  "CheckClusterHealth skewCluster [] =
     (Some skewSnapshot, None,
      [NodesList, DeploymentsList '''',
       PodsList '''' (byLabel ''app=fluent-bit''),
       PodsList '''' (byLabel ''app=cloudwatch-agent''),
       PodsList '''' (byLabel ''k8s-app=metrics-server''),
       PodsList ''kube-system'' (byLabel ''k8s-app=aws-node''),
       PodsList ''kube-system'' (byLabel ''k8s-app=kube-dns''),
       ServicesList '''', IngressesList '''',
       PodsList '''' (byField ''status.phase=Pending''),
       ServiceAccountsList '''', NodesList])
   \<and> CheckClusterHealth netDeniedCluster [] =
     (None, Some accessDenied,
      [NodesList, DeploymentsList '''',
       PodsList '''' (byLabel ''app=fluent-bit''),
       PodsList '''' (byLabel ''app=cloudwatch-agent''),
       PodsList '''' (byLabel ''k8s-app=metrics-server''),
       PodsList ''kube-system'' (byLabel ''k8s-app=aws-node'')])"
proof (rule conjI)
  show "CheckClusterHealth skewCluster [] =
     (Some skewSnapshot, None,
      [NodesList, DeploymentsList '''',
       PodsList '''' (byLabel ''app=fluent-bit''),
       PodsList '''' (byLabel ''app=cloudwatch-agent''),
       PodsList '''' (byLabel ''k8s-app=metrics-server''),
       PodsList ''kube-system'' (byLabel ''k8s-app=aws-node''),
       PodsList ''kube-system'' (byLabel ''k8s-app=kube-dns''),
       ServicesList '''', IngressesList '''',
       PodsList '''' (byField ''status.phase=Pending''),
       ServiceAccountsList '''', NodesList])"
    unfolding CheckClusterHealth_snapshot_or_first_error[of skewCluster "[]"]
    by (simp add: check_defs zero_defs skewCluster_def emptyCluster_def skewNodes_def
          readyNode_def readyCondition_def skewSnapshot_def)
  show "CheckClusterHealth netDeniedCluster [] =
     (None, Some accessDenied,
      [NodesList, DeploymentsList '''',
       PodsList '''' (byLabel ''app=fluent-bit''),
       PodsList '''' (byLabel ''app=cloudwatch-agent''),
       PodsList '''' (byLabel ''k8s-app=metrics-server''),
       PodsList ''kube-system'' (byLabel ''k8s-app=aws-node'')])"
    unfolding CheckClusterHealth_snapshot_or_first_error[of netDeniedCluster "[]"]
    by (simp add: check_defs zero_defs netDeniedCluster_def emptyCluster_def skewNodes_def
          readyNode_def)
qed

section \<open>The parts of a returned snapshot\<close>

lemma CheckClusterHealth_Some:
  assumes "CheckClusterHealth k tr = (Some s, None, tr')"
  shows "NodeVersions s = NodeVersions (fst (checkVersionMismatch k newClusterHealthStatus tr))"
    and "\<exists>t. NetworkingStatus s = fst (checkNetworkingStatus k zeroNetworkingStatus t)"
    and "\<exists>t. SchedulingStatus s = fst (checkSchedulingStatus k zeroSchedulingStatus t)"
proof -
  define r1 where "r1 = checkVersionMismatch k newClusterHealthStatus tr"
  define r2 where "r2 = checkDeprecatedAPIs k (fst r1) (callsOf r1)"
  define r3 where "r3 = checkLoggingStatus k (fst r2) (callsOf r2)"
  define r4 where "r4 = checkNetworkingStatus k (NetworkingStatus (fst r3)) (callsOf r3)"
  define r5 where "r5 = checkLoadBalancerStatus k (LoadBalancerStatus (fst r3)) (callsOf r4)"
  define r6 where "r6 = checkSchedulingStatus k (SchedulingStatus (fst r3)) (callsOf r5)"
  define r7 where "r7 = checkAuthStatus k (AuthStatus (fst r3)) (callsOf r6)"
  define r8 where "r8 = checkNodeStatus k (NodeStatus (fst r3)) (callsOf r7)"
  have s3: "fst r3 =
           \<lparr>NodeVersions = NodeVersions (fst r1), DeprecatedAPIs = DeprecatedAPIs (fst r2),
            LoggingStatus = LoggingStatus (fst r3), NetworkingStatus = zeroNetworkingStatus,
            LoadBalancerStatus = zeroLoadBalancerStatus,
            SchedulingStatus = zeroSchedulingStatus, AuthStatus = zeroAuthStatus,
            NodeStatus = zeroNodeStatus\<rparr>"
    unfolding r1_def r2_def r3_def by (rule status_after_three_checks)
  have parts: "NodeVersions (fst r3) = NodeVersions (fst r1)"
    "NetworkingStatus (fst r3) = zeroNetworkingStatus"
    "SchedulingStatus (fst r3) = zeroSchedulingStatus"
    by (subst s3, simp)+
  from assms have s: "s = (fst r3)\<lparr>NetworkingStatus := fst r4, LoadBalancerStatus := fst r5,
               SchedulingStatus := fst r6, AuthStatus := fst r7, NodeStatus := fst r8\<rparr>"
    unfolding CheckClusterHealth_unfold[of k tr] Let_def
      r1_def[symmetric] r2_def[symmetric] r3_def[symmetric] r4_def[symmetric]
      r5_def[symmetric] r6_def[symmetric] r7_def[symmetric] r8_def[symmetric]
    by (simp split: if_splits)
  show "NodeVersions s = NodeVersions (fst (checkVersionMismatch k newClusterHealthStatus tr))"
    by (simp add: s parts r1_def)
  have "NetworkingStatus s = fst (checkNetworkingStatus k zeroNetworkingStatus (callsOf r3))"
    by (simp add: s r4_def parts)
  then show "\<exists>t. NetworkingStatus s = fst (checkNetworkingStatus k zeroNetworkingStatus t)" ..
  have "SchedulingStatus s = fst (checkSchedulingStatus k zeroSchedulingStatus (callsOf r5))"
    by (simp add: s r6_def parts)
  then show "\<exists>t. SchedulingStatus s = fst (checkSchedulingStatus k zeroSchedulingStatus t)" ..
qed

section \<open>Version skew\<close>

lemma CheckClusterHealth_skewCluster:
  "fst (CheckClusterHealth skewCluster []) = Some skewSnapshot
   \<and> errorOf (CheckClusterHealth skewCluster []) = None"
  by (simp add: CheckClusterHealth_def check_defs zero_defs skewCluster_def emptyCluster_def
        skewNodes_def readyNode_def readyCondition_def skewSnapshot_def)

lemma groupVersions_lookup:
  "groupVersions nodes m v =
     (if v \<in> KubeletVersion ` set nodes
      then Some ((case m v of None \<Rightarrow> [] | Some names \<Rightarrow> names)
                 @ map node_Name (filter (\<lambda>n. KubeletVersion n = v) nodes))
      else m v)"
  by (induction nodes arbitrary: m) (auto simp: Let_def filter_empty_conv image_iff)

lemma criticalIssues_printHealthSummary:
  "criticalIssues (printHealthSummary s) = (if len_map (NodeVersions s) > 1 then 1 else 0)"
  by (simp add: printHealthSummary_def Let_def)

lemma totalIssues_printHealthSummary:
  "totalIssues (printHealthSummary s) =
     len (DeprecatedAPIs s) + len (IRSAIssues (AuthStatus s)) + len (RBACIssues (AuthStatus s))
     + len (NotReady (NodeStatus s)) + len (PendingPods (SchedulingStatus s))
     + len (PendingServices (LoadBalancerStatus s))"
  by (simp add: printHealthSummary_def Let_def)

lemma NodeVersions_snapshot:
  assumes "Nodes_List k tr = Inr nodes" and "CheckClusterHealth k tr = (Some s, None, tr')"
  shows "NodeVersions s = groupVersions nodes Map.empty"
  by (subst CheckClusterHealth_Some(1)[OF assms(2)])
     (simp add: checkVersionMismatch_def assms(1) newClusterHealthStatus_def)

text \<open>
  Claim C3. The VersionSkew check groups the nodes by kubelet version: in the snapshot of
  a run, the names under a version are exactly the names of the nodes that report it, in
  list order, and a version no node reports is not a key. When the nodes report
  \<open>1.28\<close> for \<open>n1\<close> and \<open>1.29\<close> for \<open>n2\<close> and \<open>n3\<close>, \<open>NodeVersions\<close> has exactly two keys
  and the summary counts one critical issue.
\<close>

theorem version_skew_groups_nodes:
  assumes "Nodes_List k tr = Inr nodes" and "CheckClusterHealth k tr = (Some s, None, tr')"
  shows "(\<forall>v. NodeVersions s v =
            (if v \<in> KubeletVersion ` set nodes
             then Some (map node_Name (filter (\<lambda>n. KubeletVersion n = v) nodes))
             else None))
       \<and> (map (\<lambda>n. (KubeletVersion n, node_Name n)) nodes
             = [(''1.28'', ''n1''), (''1.29'', ''n2''), (''1.29'', ''n3'')]
          \<longrightarrow> NodeVersions s = [''1.28'' \<mapsto> [''n1''], ''1.29'' \<mapsto> [''n2'', ''n3'']]
              \<and> len_map (NodeVersions s) = 2
              \<and> criticalIssues (printHealthSummary s) = 1)"
proof (intro conjI allI impI)
  have nv: "NodeVersions s = groupVersions nodes Map.empty"
    using assms by (rule NodeVersions_snapshot)
  show "NodeVersions s v =
            (if v \<in> KubeletVersion ` set nodes
             then Some (map node_Name (filter (\<lambda>n. KubeletVersion n = v) nodes))
             else None)" for v
    by (simp add: nv groupVersions_lookup)
  assume sc: "map (\<lambda>n. (KubeletVersion n, node_Name n)) nodes
             = [(''1.28'', ''n1''), (''1.29'', ''n2''), (''1.29'', ''n3'')]"
  then obtain a b c where abc: "nodes = [a, b, c]"
    "KubeletVersion a = ''1.28''" "node_Name a = ''n1''"
    "KubeletVersion b = ''1.29''" "node_Name b = ''n2''"
    "KubeletVersion c = ''1.29''" "node_Name c = ''n3''"
    by (auto simp: map_eq_Cons_conv)
  show m: "NodeVersions s = [''1.28'' \<mapsto> [''n1''], ''1.29'' \<mapsto> [''n2'', ''n3'']]"
    by (simp add: nv abc)
  show l: "len_map (NodeVersions s) = 2"
    by (simp add: m len_map_def)
  show "criticalIssues (printHealthSummary s) = 1"
    by (simp add: criticalIssues_printHealthSummary l)
qed

theorem version_skew_groups_nodes_witness:
  "Nodes_List skewCluster [] = Inr skewNodes
   \<and> fst (CheckClusterHealth skewCluster []) = Some skewSnapshot
   \<and> errorOf (CheckClusterHealth skewCluster []) = None
   \<and> NodeVersions skewSnapshot ''1.29'' = Some [''n2'', ''n3'']
   \<and> len_map (NodeVersions skewSnapshot) = 2
   \<and> criticalIssues (printHealthSummary skewSnapshot) = 1"
proof -
  have n: "Nodes_List skewCluster [] = Inr skewNodes"
    by (simp add: skewCluster_def)
  have m: "map (\<lambda>n. (KubeletVersion n, node_Name n)) skewNodes
             = [(''1.28'', ''n1''), (''1.29'', ''n2''), (''1.29'', ''n3'')]"
    by (simp add: skewNodes_def readyNode_def)
  have r: "CheckClusterHealth skewCluster []
             = (Some skewSnapshot, None, callsOf (CheckClusterHealth skewCluster []))"
    using CheckClusterHealth_skewCluster by (simp add: prod_eq_iff)
  note t = version_skew_groups_nodes[OF n r]
  from t m have "NodeVersions skewSnapshot = [''1.28'' \<mapsto> [''n1''], ''1.29'' \<mapsto> [''n2'', ''n3'']]"
    by blast
  then have a: "NodeVersions skewSnapshot ''1.29'' = Some [''n2'', ''n3'']"
    by simp
  from t m have b: "len_map (NodeVersions skewSnapshot) = 2"
    and c: "criticalIssues (printHealthSummary skewSnapshot) = 1"
    by blast+
  show ?thesis
    using n CheckClusterHealth_skewCluster a b c by blast
qed

section \<open>The summary\<close>

lemma len_map_skewSnapshot: "len_map (NodeVersions skewSnapshot) = 2"
  by (simp add: skewSnapshot_def len_map_def)

lemma totalIssues_skewSnapshot: "totalIssues (printHealthSummary skewSnapshot) = 0"
  by (simp add: totalIssues_printHealthSummary skewSnapshot_def zero_defs len_def)

text \<open>
  What the summary prints when the six counted categories are empty: no recommendation
  at all, whether or not the versions are skewed.
\<close>

lemma printed_no_total_issues:
  assumes "totalIssues (printHealthSummary s) = 0"
  shows "printed (printHealthSummary s) =
           (if len_map (NodeVersions s) > 1
            then [Warning ''Found %d critical issues that need immediate attention'' [1]]
            else [])
           @ [Success ''No issues found - cluster is healthy!'']"
  using assms by (simp add: printHealthSummary_def Let_def)

text \<open>
  What the summary prints when a counted category has a finding: each of the seven
  recommendations at most once, in the numbered order, for the categories that have a
  finding.
\<close>

lemma printed_recommendations:
  assumes "totalIssues (printHealthSummary s) > 0"
  shows "printed (printHealthSummary s) =
           (if len_map (NodeVersions s) > 1
            then [Warning ''Found %d critical issues that need immediate attention'' [1]]
            else [])
           @ [Warning ''Total issues found: %d'' [totalIssues (printHealthSummary s)],
              Println (CHR 0x0A # ''Recommended actions:'')]
           @ map (Println \<circ> snd) (filter fst
               [(len_map (NodeVersions s) > 1, ''1. Upgrade nodes to match control plane version''),
                (len (DeprecatedAPIs s) > 0, ''2. Update applications using deprecated APIs''),
                (len (IRSAIssues (AuthStatus s)) > 0, ''3. Fix IRSA configuration issues''),
                (len (RBACIssues (AuthStatus s)) > 0, ''4. Review and fix RBAC issues''),
                (len (NotReady (NodeStatus s)) > 0, ''5. Investigate nodes in NotReady state''),
                (len (PendingPods (SchedulingStatus s)) > 0, ''6. Address pod scheduling issues''),
                (len (PendingServices (LoadBalancerStatus s)) > 0,
                 ''7. Check LoadBalancer provisioning issues'')])"
  using assms by (simp add: printHealthSummary_def Let_def)

text \<open>
  Claim C2, at the failing input. In the snapshot of a cluster whose only finding is the
  version skew, the summary counts one critical issue and no issue in total.
\<close>

theorem printHealthSummary_critical_exceeds_total:
  "fst (CheckClusterHealth skewCluster []) = Some skewSnapshot
   \<and> errorOf (CheckClusterHealth skewCluster []) = None
   \<and> criticalIssues (printHealthSummary skewSnapshot) = 1
   \<and> totalIssues (printHealthSummary skewSnapshot) = 0
   \<and> \<not> criticalIssues (printHealthSummary skewSnapshot)
         \<le> totalIssues (printHealthSummary skewSnapshot)"
  by (simp add: CheckClusterHealth_skewCluster criticalIssues_printHealthSummary
        len_map_skewSnapshot totalIssues_skewSnapshot)

text \<open>
  Claim C4, at the failing input. In the same snapshot the versions are skewed and the
  summary counts the critical issue, yet it prints no recommendation: after the warning
  about the critical issue comes the line that the cluster is healthy.
\<close>

theorem printHealthSummary_skew_without_recommendation:
  "len_map (NodeVersions skewSnapshot) > 1
   \<and> criticalIssues (printHealthSummary skewSnapshot) = 1
   \<and> printed (printHealthSummary skewSnapshot) =
       [Warning ''Found %d critical issues that need immediate attention'' [1],
        Success ''No issues found - cluster is healthy!'']"
  by (simp add: printed_no_total_issues[OF totalIssues_skewSnapshot]
        criticalIssues_printHealthSummary len_map_skewSnapshot)

section \<open>Pending pods\<close>

lemma reasonLoop_find:
  "reasonLoop conds reason =
     (case find (\<lambda>c. cond_Type c = PodScheduled \<and> cond_Status c = ConditionFalse) conds of
        None \<Rightarrow> reason
      | Some c \<Rightarrow> cond_Message c)"
  by (induction conds) simp_all

lemma pendingPodsLoop_map:
  "pendingPodsLoop pods acc =
     acc @ map (\<lambda>pod. \<lparr>Pod = pod_Name pod, Namespace = pod_Namespace pod,
                        Reason = reasonLoop (status_Conditions pod) ''''\<rparr>) pods"
  by (induction pods arbitrary: acc) (simp_all add: Let_def)

text \<open>
  Claim C5, as stated: the pod \<open>web-0\<close> is pending and its only condition is
  \<open>PodScheduled\<close> with status \<open>True\<close>, and the check records an issue for it, with an
  empty reason.
\<close>

theorem checkSchedulingStatus_issue_without_condition_counterexample:
  "status_Phase pullingPod = PodPending
   \<and> status_Conditions pullingPod =
       [\<lparr>cond_Type = PodScheduled, cond_Status = ConditionTrue, cond_Message = ''''\<rparr>]
   \<and> PendingPods (fst (checkSchedulingStatus pendingCluster zeroSchedulingStatus [])) =
       [\<lparr>Pod = ''db-0'', Namespace = ''default'',
         Reason = ''0/3 nodes are available: 3 Insufficient cpu.''\<rparr>,
        \<lparr>Pod = ''web-0'', Namespace = ''default'', Reason = ''''\<rparr>]"
  by (simp add: checkSchedulingStatus_def byField_def pendingCluster_def emptyCluster_def
        zeroSchedulingStatus_def unschedulablePod_def pullingPod_def)

text \<open>
  Claim C5, amended. The Scheduling check records one issue for every pod that the
  accessor lists as pending, in list order; the reason of the issue is the message of
  the pod's first \<open>PodScheduled\<close> condition with status \<open>False\<close>, and is empty when the
  pod has no such condition. The listing is the only call of the check.
\<close>

theorem checkSchedulingStatus_pending_pods:
  assumes "Pods_List k tr '''' \<lparr>LabelSelector = '''', FieldSelector = ''status.phase=Pending''\<rparr>
             = Inr pods"
  shows "checkSchedulingStatus k status tr =
           (status\<lparr>PendingPods := PendingPods status @
              map (\<lambda>pod. \<lparr>Pod = pod_Name pod, Namespace = pod_Namespace pod,
                     Reason =
                       (case find (\<lambda>c. cond_Type c = PodScheduled \<and> cond_Status c = ConditionFalse)
                               (status_Conditions pod) of
                          None \<Rightarrow> ''''
                        | Some c \<Rightarrow> cond_Message c)\<rparr>) pods\<rparr>,
            None,
            tr @ [PodsList '''' \<lparr>LabelSelector = '''', FieldSelector = ''status.phase=Pending''\<rparr>])"
  using assms
  by (simp add: checkSchedulingStatus_def byField_def pendingPodsLoop_map reasonLoop_find)

theorem checkSchedulingStatus_pending_pods_witness:
  "Pods_List pendingCluster [] ''''
     \<lparr>LabelSelector = '''', FieldSelector = ''status.phase=Pending''\<rparr>
     = Inr [unschedulablePod, pullingPod]
   \<and> map Reason (PendingPods (fst (checkSchedulingStatus pendingCluster zeroSchedulingStatus [])))
       = [''0/3 nodes are available: 3 Insufficient cpu.'', '''']"
proof -
  have l: "Pods_List pendingCluster [] ''''
     \<lparr>LabelSelector = '''', FieldSelector = ''status.phase=Pending''\<rparr>
     = Inr [unschedulablePod, pullingPod]"
    by (simp add: pendingCluster_def emptyCluster_def)
  show ?thesis
    using checkSchedulingStatus_pending_pods[OF l, of zeroSchedulingStatus] l
    by (simp add: zeroSchedulingStatus_def unschedulablePod_def pullingPod_def)
qed

section \<open>Node readiness\<close>

lemma isReadyLoop_find:
  "isReadyLoop conds isReady =
     (case find (\<lambda>c. cond_Type c = NodeReady) conds of
        None \<Rightarrow> isReady
      | Some c \<Rightarrow> cond_Status c = ConditionTrue)"
  by (induction conds) simp_all

lemma bootstrapLoop_filter:
  "bootstrapLoop name conds acc =
     acc @ map (\<lambda>c. ''Node '' @ name @ '': '' @ cond_Type c @ '' - '' @ cond_Message c)
             (filter (\<lambda>c. cond_Status c = ConditionFalse) conds)"
  by (induction conds arbitrary: acc) simp_all

lemma nodesLoop_filter:
  "nodesLoop nodes status =
     status\<lparr>NotReady := NotReady status
               @ map node_Name (filter (\<lambda>n. \<not> isReadyLoop (node_Conditions n) False) nodes),
            BootstrapIssues := BootstrapIssues status
               @ concat (map (\<lambda>n. bootstrapLoop (node_Name n) (node_Conditions n) [])
                   (filter (\<lambda>n. \<not> isReadyLoop (node_Conditions n) False) nodes))\<rparr>"
proof (induction nodes arbitrary: status)
  case Nil
  show ?case by simp
next
  case (Cons node nodes)
  show ?case
    by (simp add: Cons.IH Let_def bootstrapLoop_filter)
qed

lemma find_distinct_key:
  assumes "distinct (map f xs)"
  shows "(case find (\<lambda>c. f c = a) xs of None \<Rightarrow> False | Some c \<Rightarrow> P c)
           \<longleftrightarrow> (\<exists>c\<in>set xs. f c = a \<and> P c)"
  using assms by (induction xs) (auto simp: image_iff)

text \<open>
  Claim C7, as stated: the node \<open>n4\<close> has two conditions with status \<open>False\<close>,
  \<open>MemoryPressure\<close> and \<open>Ready\<close>, and the check records a bootstrap issue for both, the
  \<open>Ready\<close> condition included.
\<close>

theorem checkNodeStatus_ready_condition_counterexample:
  "map (\<lambda>c. (cond_Type c, cond_Status c)) (node_Conditions downNode)
     = [(''MemoryPressure'', ConditionFalse), (NodeReady, ConditionFalse)]
   \<and> NotReady (fst (checkNodeStatus downCluster zeroNodeStatus [])) = [''n4'']
   \<and> BootstrapIssues (fst (checkNodeStatus downCluster zeroNodeStatus [])) =
       [''Node n4: MemoryPressure - kubelet has sufficient memory available'',
        ''Node n4: Ready - container runtime network not ready'']"
  by (simp add: checkNodeStatus_def downCluster_def emptyCluster_def zeroNodeStatus_def
        downNode_def readyNode_def readyCondition_def)

text \<open>
  Claim C7, amended. The NodeReadiness check adds a node's name to \<open>NotReady\<close> exactly
  when the node's first condition of type \<open>Ready\<close> does not have status \<open>True\<close> or the
  node has no condition of that type; where every condition type occurs at most once on
  the node, this is to say that the node lacks a \<open>Ready\<close> condition with status \<open>True\<close>.
  For such a node, and for no other, one bootstrap issue with the node's name, the
  condition's type and its message is recorded for each condition with status \<open>False\<close>,
  the \<open>Ready\<close> condition included, in the order of the conditions.
\<close>

theorem checkNodeStatus_not_ready:
  fixes k :: Clientset and nodes :: "Node list" and status :: NodeStatus
    and tr :: "call list"
  defines "notReady \<equiv> \<lambda>n. (case find (\<lambda>c. cond_Type c = NodeReady) (node_Conditions n) of
                                None \<Rightarrow> True
                              | Some c \<Rightarrow> cond_Status c \<noteq> ConditionTrue)"
  assumes "Nodes_List k tr = Inr nodes"
  shows "checkNodeStatus k status tr =
           (status\<lparr>NotReady := NotReady status @ map node_Name (filter notReady nodes),
                   BootstrapIssues := BootstrapIssues status @
                     concat (map (\<lambda>n. map (\<lambda>c. ''Node '' @ node_Name n @ '': '' @ cond_Type c
                                                @ '' - '' @ cond_Message c)
                                        (filter (\<lambda>c. cond_Status c = ConditionFalse)
                                           (node_Conditions n)))
                               (filter notReady nodes))\<rparr>,
            None, tr @ [NodesList])
       \<and> (\<forall>n. distinct (map cond_Type (node_Conditions n)) \<longrightarrow>
              (notReady n \<longleftrightarrow>
                 \<not> (\<exists>c\<in>set (node_Conditions n).
                       cond_Type c = NodeReady \<and> cond_Status c = ConditionTrue)))"
proof (intro conjI allI impI)
  have nr: "(\<lambda>n. \<not> isReadyLoop (node_Conditions n) False) = notReady"
    by (auto simp: notReady_def isReadyLoop_find fun_eq_iff split: option.splits)
  show "checkNodeStatus k status tr =
           (status\<lparr>NotReady := NotReady status @ map node_Name (filter notReady nodes),
                   BootstrapIssues := BootstrapIssues status @
                     concat (map (\<lambda>n. map (\<lambda>c. ''Node '' @ node_Name n @ '': '' @ cond_Type c
                                                @ '' - '' @ cond_Message c)
                                        (filter (\<lambda>c. cond_Status c = ConditionFalse)
                                           (node_Conditions n)))
                               (filter notReady nodes))\<rparr>,
            None, tr @ [NodesList])"
    using assms(2)
    by (simp add: checkNodeStatus_def nodesLoop_filter nr bootstrapLoop_filter)
next
  fix n :: Node
  assume d: "distinct (map cond_Type (node_Conditions n))"
  have "\<not> notReady n \<longleftrightarrow>
          (case find (\<lambda>c. cond_Type c = NodeReady) (node_Conditions n) of
             None \<Rightarrow> False | Some c \<Rightarrow> cond_Status c = ConditionTrue)"
    by (simp add: notReady_def split: option.splits)
  also have "\<dots> \<longleftrightarrow> (\<exists>c\<in>set (node_Conditions n).
                       cond_Type c = NodeReady \<and> cond_Status c = ConditionTrue)"
    by (rule find_distinct_key[OF d])
  finally show "notReady n \<longleftrightarrow>
                 \<not> (\<exists>c\<in>set (node_Conditions n).
                       cond_Type c = NodeReady \<and> cond_Status c = ConditionTrue)"
    by blast
qed

theorem checkNodeStatus_not_ready_witness:
  "Nodes_List downCluster [] = Inr [readyNode ''n1'' ''1.29'', downNode]
   \<and> distinct (map cond_Type (node_Conditions downNode))
   \<and> NotReady (fst (checkNodeStatus downCluster zeroNodeStatus [])) = [''n4'']
   \<and> length (BootstrapIssues (fst (checkNodeStatus downCluster zeroNodeStatus []))) = 2"
proof -
  have l: "Nodes_List downCluster [] = Inr [readyNode ''n1'' ''1.29'', downNode]"
    by (simp add: downCluster_def)
  have d: "distinct (map cond_Type (node_Conditions downNode))"
    by (simp add: downNode_def)
  show ?thesis
    using checkNodeStatus_not_ready[OF l, of zeroNodeStatus] l d
    by (simp add: zeroNodeStatus_def downNode_def readyNode_def readyCondition_def)
qed

section \<open>The token volume\<close>

lemma sourcesLoop_iff:
  "sourcesLoop sources h \<longleftrightarrow> h \<or> (\<exists>source\<in>set sources. ServiceAccountToken source \<noteq> None)"
  by (induction sources) auto

lemma volumesLoop_iff:
  "volumesLoop volumes h \<longleftrightarrow>
     h \<or> (\<exists>volume\<in>set volumes. \<exists>sources. Projected volume = Some sources
            \<and> (\<exists>source\<in>set sources. ServiceAccountToken source \<noteq> None))"
proof (induction volumes arbitrary: h)
  case Nil
  show ?case by simp
next
  case (Cons volume volumes)
  show ?case
    by (cases "Projected volume") (auto simp: Cons.IH sourcesLoop_iff)
qed

text \<open>
  Claim C9. For a pod that the accessor returns, \<open>ValidatePodWebIdentityToken\<close> returns
  an error exactly when no volume of the pod is a projected volume with a
  service-account-token source, and the error is then the finding that the token volume
  is not mounted. The environment of the containers plays no part: a pod with
  \<open>AWS_ROLE_ARN\<close> set and no volume yields the finding, and the same pod with the volume
  yields none.
\<close>

theorem ValidatePodWebIdentityToken_iff_no_token_volume:
  assumes "Pods_Get k tr namespace podName = Inr pod"
  shows "(fst (ValidatePodWebIdentityToken k tr namespace podName) \<noteq> None \<longleftrightarrow>
            \<not> (\<exists>volume\<in>set (spec_Volumes pod). \<exists>sources. Projected volume = Some sources
                  \<and> (\<exists>source\<in>set sources. ServiceAccountToken source \<noteq> None)))
       \<and> (fst (ValidatePodWebIdentityToken k tr namespace podName) \<noteq> None \<longrightarrow>
            fst (ValidatePodWebIdentityToken k tr namespace podName)
              = Some (Errorf ''pod does not have service account token volume mounted''))
       \<and> (spec_Volumes pod = []
            \<longrightarrow> fst (ValidatePodWebIdentityToken k tr namespace podName) \<noteq> None)
       \<and> snd (ValidatePodWebIdentityToken k tr namespace podName)
            = tr @ [PodsGet namespace podName]"
  using assms by (auto simp: ValidatePodWebIdentityToken_def Let_def volumesLoop_iff)

theorem ValidatePodWebIdentityToken_iff_no_token_volume_witness:
  "Pods_Get irsaCluster [] ''default'' ''missing'' = Inr missingIrsaPod
   \<and> Pods_Get irsaCluster [] ''default'' ''valid'' = Inr validIrsaPod
   \<and> map fst (ctr_Env irsaContainer) = [''AWS_ROLE_ARN'', ''AWS_WEB_IDENTITY_TOKEN_FILE'']
   \<and> fst (ValidatePodWebIdentityToken irsaCluster [] ''default'' ''missing'')
       = Some (Errorf ''pod does not have service account token volume mounted'')
   \<and> fst (ValidatePodWebIdentityToken irsaCluster [] ''default'' ''valid'') = None"
proof -
  have m: "Pods_Get irsaCluster [] ''default'' ''missing'' = Inr missingIrsaPod"
    and v: "Pods_Get irsaCluster [] ''default'' ''valid'' = Inr validIrsaPod"
    by (simp_all add: irsaCluster_def emptyCluster_def)
  have e: "map fst (ctr_Env irsaContainer) = [''AWS_ROLE_ARN'', ''AWS_WEB_IDENTITY_TOKEN_FILE'']"
    by (simp add: irsaContainer_def)
  have "spec_Volumes missingIrsaPod = []"
    by (simp add: missingIrsaPod_def)
  with ValidatePodWebIdentityToken_iff_no_token_volume[OF m]
  have a: "fst (ValidatePodWebIdentityToken irsaCluster [] ''default'' ''missing'')
       = Some (Errorf ''pod does not have service account token volume mounted'')"
    by blast
  have "\<exists>volume\<in>set (spec_Volumes validIrsaPod). \<exists>sources. Projected volume = Some sources
                  \<and> (\<exists>source\<in>set sources. ServiceAccountToken source \<noteq> None)"
    by (simp add: validIrsaPod_def)
  with ValidatePodWebIdentityToken_iff_no_token_volume[OF v]
  have b: "fst (ValidatePodWebIdentityToken irsaCluster [] ''default'' ''valid'') = None"
    by blast
  show ?thesis using m v e a b by blast
qed

section \<open>Networking\<close>




lemma noProbeSince_append [simp]:
  "noProbeSince tr (tr @ cs) \<longleftrightarrow> (\<forall>c\<in>set cs. \<not> isProbeCall c)"
  by (simp add: noProbeSince_def)












section \<open>Resource utilization\<close>

subsection \<open>The rounding\<close>

text \<open>\<open>exponent\<close> brackets its argument between two powers of two.\<close>

lemma exponent_bounds:
  assumes "0 < x"
  shows "2 powi exponent x \<le> x \<and> x < 2 powi (exponent x + 1)"
proof (cases "1 \<le> x")
  case True
  define n where "n = \<lfloor>x\<rfloor>"
  have n1: "1 \<le> n" using True by (simp add: n_def le_floor_iff)
  then have n0: "0 < n" by simp
  define b where "b = bitlen n"
  have bb: "2 ^ nat (b - 1) \<le> n" "n < 2 ^ nat b"
    using bitlen_bounds[OF n0] by (simp_all add: b_def)
  have b1: "1 \<le> b" using n0 bitlen_nonneg[of n] bitlen_eq_zero_iff[of n]
    by (simp add: b_def)
  have e: "exponent x = b - 1" using True by (simp add: exponent_def b_def n_def)
  have lo: "(2::rat) ^ nat (b - 1) \<le> x"
  proof -
    have "(2::rat) ^ nat (b - 1) = of_int (2 ^ nat (b - 1))" by simp
    also have "\<dots> \<le> of_int n" using bb(1) by (simp only: of_int_le_iff)
    also have "\<dots> \<le> x" by (simp add: n_def)
    finally show ?thesis .
  qed
  have hi: "x < (2::rat) ^ nat b"
  proof -
    have "x < of_int n + 1" using floor_correct[of x] by (simp add: n_def)
    also have "\<dots> = of_int (n + 1)" by simp
    also have "\<dots> \<le> of_int (2 ^ nat b)" using bb(2) by (simp only: of_int_le_iff; simp)
    also have "\<dots> = (2::rat) ^ nat b" by simp
    finally show ?thesis .
  qed
  show ?thesis using lo hi b1 by (simp add: e power_int_def)
next
  case False
  define y where "y = 1 / x"
  have y1: "1 < y" using False assms by (simp add: y_def)
  define m where "m = \<lceil>y\<rceil> - 1"
  have my: "of_int m < y" "y \<le> of_int m + 1"
    unfolding m_def using ceiling_correct[of y] by simp_all
  have "(0::rat) < of_int m" using y1 my(2) by linarith
  then have m0: "0 < m" by simp
  define b where "b = bitlen m"
  have bb: "2 ^ nat (b - 1) \<le> m" "m < 2 ^ nat b"
    using bitlen_bounds[OF m0] by (simp_all add: b_def)
  have b1: "1 \<le> b" using m0 bitlen_nonneg[of m] bitlen_eq_zero_iff[of m]
    by (simp add: b_def)
  have e: "exponent x = - b" using False by (simp add: exponent_def b_def m_def y_def)
  have lo: "(2::rat) ^ nat (b - 1) < y"
  proof -
    have "(2::rat) ^ nat (b - 1) = of_int (2 ^ nat (b - 1))" by simp
    also have "\<dots> \<le> of_int m" using bb(1) by (simp only: of_int_le_iff)
    also have "\<dots> < y" by (rule my(1))
    finally show ?thesis .
  qed
  have hi: "y \<le> (2::rat) ^ nat b"
  proof -
    have "y \<le> of_int (m + 1)" using my(2) by simp
    also have "\<dots> \<le> of_int (2 ^ nat b)" using bb(2) by (simp only: of_int_le_iff; simp)
    also have "\<dots> = (2::rat) ^ nat b" by simp
    finally show ?thesis .
  qed
  have x: "x = 1 / y" using assms by (simp add: y_def)
  have p1: "1 / (2::rat) ^ nat b \<le> x"
    unfolding x using hi y1 by (simp add: frac_le)
  have p2: "x < 1 / (2::rat) ^ nat (b - 1)"
    unfolding x using lo by (simp add: frac_less2)
  have "- b + 1 = - (b - 1)" by simp
  then show ?thesis using p1 p2 b1 False
    by (simp add: e power_int_def inverse_eq_divide power_one_over)
qed

text \<open>The rounded value is a nearest one: it is off by half a unit at most.\<close>

lemma roundTiesToEven_nearest: "\<bar>of_int (roundTiesToEven x) - x\<bar> \<le> 1 / 2"
proof -
  define f where "f = \<lfloor>x\<rfloor>"
  define d where "d = x - of_int f"
  have d: "0 \<le> d" "d < 1"
    using floor_correct[of x] by (simp_all add: d_def f_def)
  have r: "roundTiesToEven x =
             (if d < 1 / 2 then f else if 1 / 2 < d then f + 1 else if even f then f else f + 1)"
    by (simp add: roundTiesToEven_def Let_def d_def f_def)
  have "of_int (roundTiesToEven x) - x = of_int (roundTiesToEven x) - of_int f - d"
    by (simp add: d_def)
  also have "\<bar>\<dots>\<bar> \<le> 1 / 2"
    unfolding r using d by (auto simp: abs_if)
  finally show ?thesis .
qed

lemma roundFloat64_nearest:
  assumes "x \<noteq> 0"
  shows "\<bar>roundFloat64 x - x\<bar> \<le> 2 powi (exponent \<bar>x\<bar> - 52) / 2"
proof -
  define u :: rat where "u = 2 powi (exponent \<bar>x\<bar> - 52)"
  have u: "0 < u" by (simp add: u_def)
  have "roundFloat64 x - x = (of_int (roundTiesToEven (x / u)) - x / u) * u"
    using assms u by (simp add: roundFloat64_def u_def[symmetric] Let_def algebra_simps)
  then have "\<bar>roundFloat64 x - x\<bar> = \<bar>of_int (roundTiesToEven (x / u)) - x / u\<bar> * u"
    using u by (simp add: abs_mult)
  also have "\<dots> \<le> (1 / 2) * u"
    using roundTiesToEven_nearest[of "x / u"] u by (intro mult_right_mono) simp_all
  finally show ?thesis by (simp add: u_def)
qed



lemma percentage_third:
  "fmul (fdiv (float64 1000) (float64 3000)) 100 = 2345624805922133 / 70368744177664"
  by code_simp

subsection \<open>The sums\<close>








end
